theory Spec2Isabelle
  imports Main "HOL-Library.Multiset"
begin

section \<open>Python primitives used by the models\<close>

text \<open>
  The models of \<^verbatim>\<open>activity_model.py\<close> and \<^verbatim>\<open>report_model.py\<close> use a few library
  functions of Python: \<^verbatim>\<open>datetime.strptime\<close> with the format \<^verbatim>\<open>%H:%M\<close>, the format
  specification \<^verbatim>\<open>02d\<close>, \<^verbatim>\<open>str.strip\<close>, \<^verbatim>\<open>str.split\<close>, \<^verbatim>\<open>int\<close> on a string,
  \<^verbatim>\<open>os.path.splitext\<close>, \<^verbatim>\<open>date.isoformat\<close> and \<^verbatim>\<open>date.fromisoformat\<close>. They are
  written out here.
  A \<^typ>\<open>string\<close> is a list of characters with code points below 256; among those the
  only decimal digits are \<open>0\<close> to \<open>9\<close>.
\<close>

datatype py_error = ValueError | TypeError | AttributeError | IndexError

definition in_range :: "char \<Rightarrow> char \<Rightarrow> char \<Rightarrow> bool" where
  "in_range lo hi c = ((of_char lo :: nat) \<le> of_char c \<and> (of_char c :: nat) \<le> of_char hi)"

definition is_digit :: "char \<Rightarrow> bool" where
  "is_digit c = in_range (CHR ''0'') (CHR ''9'') c"

definition digit_val :: "char \<Rightarrow> nat" where
  "digit_val c = of_char c - 48"

definition digit_char :: "nat \<Rightarrow> char" where
  "digit_char n = char_of (48 + n)"

text \<open>The value of a string of decimal digits, most significant digit first.\<close>

definition digits_val :: "string \<Rightarrow> nat" where
  "digits_val s = foldl (\<lambda>acc c. 10 * acc + digit_val c) 0 s"

text \<open>The decimal spelling of a natural number.\<close>

fun digits_of :: "nat \<Rightarrow> string" where
  "digits_of n = (if n < 10 then [digit_char n] else digits_of (n div 10) @ [digit_char (n mod 10)])"

declare digits_of.simps [simp del]

text \<open>
  \<^verbatim>\<open>f"{n:02d}"\<close>: the decimal spelling, padded with zeros after the sign to a width of
  at least 2 (the sign counts in the width).
\<close>

definition format_02d :: "int \<Rightarrow> string" where
  "format_02d n =
     (if n < 0 then CHR ''-'' # digits_of (nat (- n))
      else if n < 10 then CHR ''0'' # digits_of (nat n)
      else digits_of (nat n))"

subsection \<open>\<^verbatim>\<open>datetime.strptime(s, "%H:%M")\<close>\<close>

text \<open>
  \<^verbatim>\<open>_strptime\<close> compiles the format to the regular expression
  \<^verbatim>\<open>(?P<H>2[0-3]|[0-1]\d|\d):(?P<M>[0-5]\d|\d)\<close>, matches it at the start of the string
  and raises \<^verbatim>\<open>ValueError\<close> when there is no match or when the match does not reach the
  end of the string. A directive is modelled by the list of its possible matches, in the
  order in which the backtracking matcher tries the alternatives, each with the rest of
  the string; the match is the first way through the whole expression.
\<close>

definition alt2 :: "(char \<Rightarrow> bool) \<Rightarrow> (char \<Rightarrow> bool) \<Rightarrow> string \<Rightarrow> (string \<times> string) list" where
  "alt2 p q s = (case s of a # b # r \<Rightarrow> if p a \<and> q b then [([a, b], r)] else [] | _ \<Rightarrow> [])"

definition alt1 :: "(char \<Rightarrow> bool) \<Rightarrow> string \<Rightarrow> (string \<times> string) list" where
  "alt1 p s = (case s of a # r \<Rightarrow> if p a then [([a], r)] else [] | _ \<Rightarrow> [])"

definition directive_H :: "string \<Rightarrow> (string \<times> string) list" where
  "directive_H s =
     alt2 (\<lambda>c. c = CHR ''2'') (in_range (CHR ''0'') (CHR ''3'')) s @
     alt2 (in_range (CHR ''0'') (CHR ''1'')) is_digit s @
     alt1 is_digit s"

definition directive_M :: "string \<Rightarrow> (string \<times> string) list" where
  "directive_M s = alt2 (in_range (CHR ''0'') (CHR ''5'')) is_digit s @ alt1 is_digit s"

definition colon :: "string \<Rightarrow> string list" where
  "colon s = (case s of c # r \<Rightarrow> if c = CHR '':'' then [r] else [] | [] \<Rightarrow> [])"

text \<open>The groups \<open>H\<close> and \<open>M\<close> of the match and the text after it.\<close>

definition re_match_HM :: "string \<Rightarrow> (string \<times> string \<times> string) option" where
  "re_match_HM s =
     (case [(h, m, r2). (h, r) \<leftarrow> directive_H s, r1 \<leftarrow> colon r, (m, r2) \<leftarrow> directive_M r1] of
        [] \<Rightarrow> None
      | x # _ \<Rightarrow> Some x)"

text \<open>
  The parsed \<^verbatim>\<open>datetime\<close> is January 1st, 1900 at the given hour and minute; it is
  represented by the number of seconds since the midnight of that day, so that
  \<^verbatim>\<open>timedelta(days=1)\<close> is 86400 and the difference of two values is
  \<^verbatim>\<open>total_seconds()\<close>. These are whole numbers far below \<open>2 ^ 53\<close>, on which the
  floating point operations \<^verbatim>\<open>//\<close> and \<^verbatim>\<open>%\<close> of the source are exact.
\<close>

type_synonym datetime = int

definition strptime_HM :: "string \<Rightarrow> py_error + datetime" where
  "strptime_HM s =
     (case re_match_HM s of
        None \<Rightarrow> Inl ValueError
      | Some (h, m, rest) \<Rightarrow>
          if rest \<noteq> [] then Inl ValueError
          else Inr (3600 * int (digits_val h) + 60 * int (digits_val m)))"

subsection \<open>Strings\<close>

text \<open>
  \<^verbatim>\<open>str.strip()\<close> removes the white space of Unicode at both ends; below 256 these
  are the code points 9 to 13, 28 to 32, 133 and 160.
\<close>

definition is_space :: "char \<Rightarrow> bool" where
  "is_space c =
     (let n = (of_char c :: nat)
      in (9 \<le> n \<and> n \<le> 13) \<or> (28 \<le> n \<and> n \<le> 32) \<or> n = 133 \<or> n = 160)"

definition py_strip :: "string \<Rightarrow> string" where
  "py_strip s = rev (dropWhile is_space (rev (dropWhile is_space s)))"

text \<open>\<^verbatim>\<open>s.split(c)\<close>: the pieces between the occurrences of \<open>c\<close>, never an empty list.\<close>

fun py_split :: "char \<Rightarrow> string \<Rightarrow> string list" where
  "py_split c [] = [[]]"
| "py_split c (x # xs) =
     (if x = c then [] # py_split c xs
      else (case py_split c xs of
              y # ys \<Rightarrow> (x # y) # ys
            | [] \<Rightarrow> [[x]]))"

text \<open>
  \<^verbatim>\<open>int(s)\<close>: white space at both ends is ignored; then an optional sign and decimal
  digits, where single underscores may stand between digits. Anything else, and a
  spelling of more than 4300 digits, raises \<^verbatim>\<open>ValueError\<close>. The white space that
  \<^verbatim>\<open>int\<close> ignores is narrower than that of \<^verbatim>\<open>str.strip\<close>: below 256 it is the code
  points 9 to 13, 32, 133 and 160, and not the separators 28 to 31.
\<close>

definition is_int_space :: "char \<Rightarrow> bool" where
  "is_int_space c =
     (let n = (of_char c :: nat)
      in (9 \<le> n \<and> n \<le> 13) \<or> n = 32 \<or> n = 133 \<or> n = 160)"

definition int_strip :: "string \<Rightarrow> string" where
  "int_strip s = rev (dropWhile is_int_space (rev (dropWhile is_int_space s)))"

fun underscores_ok :: "string \<Rightarrow> bool" where
  "underscores_ok [] = True"
| "underscores_ok [c] = (c \<noteq> CHR ''_'')"
| "underscores_ok (a # b # r) = (\<not> (a = CHR ''_'' \<and> b = CHR ''_'') \<and> underscores_ok (b # r))"

definition int_body :: "string \<Rightarrow> py_error + nat" where
  "int_body b =
     (let ds = filter (\<lambda>c. c \<noteq> CHR ''_'') b
      in if b = [] \<or> \<not> list_all (\<lambda>c. is_digit c \<or> c = CHR ''_'') b
            \<or> hd b = CHR ''_'' \<or> \<not> underscores_ok b \<or> length ds > 4300
         then Inl ValueError
         else Inr (digits_val ds))"

definition py_int :: "string \<Rightarrow> py_error + int" where
  "py_int s =
     (case int_strip s of
        [] \<Rightarrow> Inl ValueError
      | c # r \<Rightarrow>
          if c = CHR ''-'' then map_sum id (\<lambda>n. - int n) (int_body r)
          else if c = CHR ''+'' then map_sum id int (int_body r)
          else map_sum id int (int_body (c # r)))"

text \<open>\<^verbatim>\<open>str(n)\<close> of an integer.\<close>

definition py_str :: "int \<Rightarrow> string" where
  "py_str n = (if n < 0 then CHR ''-'' # digits_of (nat (- n)) else digits_of (nat n))"

text \<open>
  \<^verbatim>\<open>str.lower()\<close> on code points below 256: the letters \<open>A\<close> to \<open>Z\<close> and the
  capital letters of Latin-1 (192 to 222 without the multiplication sign 215) move up
  by 32.
\<close>

definition lower_char :: "char \<Rightarrow> char" where
  "lower_char c =
     (let n = (of_char c :: nat)
      in if (65 \<le> n \<and> n \<le> 90) \<or> (192 \<le> n \<and> n \<le> 222 \<and> n \<noteq> 215) then char_of (n + 32) else c)"

definition py_lower :: "string \<Rightarrow> string" where
  "py_lower s = map lower_char s"

text \<open>
  \<^verbatim>\<open>os.path.splitext\<close> of \<^verbatim>\<open>posixpath\<close>: the extension starts at the last dot of
  the last component, unless that component has nothing but dots before it.
\<close>

definition rfind :: "char \<Rightarrow> string \<Rightarrow> int" where
  "rfind c p = (case filter (\<lambda>i. p ! i = c) (rev [0 ..< length p]) of [] \<Rightarrow> - 1 | i # _ \<Rightarrow> int i)"

definition splitext :: "string \<Rightarrow> string \<times> string" where
  "splitext p =
     (let sepIndex = rfind (CHR ''/'') p;
          dotIndex = rfind (CHR ''.'') p
      in if dotIndex > sepIndex
            \<and> list_ex (\<lambda>i. p ! i \<noteq> CHR ''.'') [nat (sepIndex + 1) ..< nat dotIndex]
         then (take (nat dotIndex) p, drop (nat dotIndex) p)
         else (p, []))"

text \<open>\<^verbatim>\<open>xs[i]\<close>: a negative index counts from the end; out of range raises.\<close>

definition py_index :: "'a list \<Rightarrow> int \<Rightarrow> py_error + 'a" where
  "py_index xs i =
     (if 0 \<le> i \<and> i < int (length xs) then Inr (xs ! nat i)
      else if i < 0 \<and> - int (length xs) \<le> i then Inr (xs ! nat (int (length xs) + i))
      else Inl IndexError)"

text \<open>\<^verbatim>\<open>xs.pop(i)\<close> and \<^verbatim>\<open>xs.insert(i, x)\<close> for an index within the list.\<close>

definition pop_at :: "'a list \<Rightarrow> nat \<Rightarrow> 'a list" where
  "pop_at xs i = take i xs @ drop (Suc i) xs"

definition insert_at :: "'a list \<Rightarrow> nat \<Rightarrow> 'a \<Rightarrow> 'a list" where
  "insert_at xs i x = take i xs @ x # drop i xs"

text \<open>
  The file system, as far as the models look at it: the size in bytes of what is at a
  path, and \<open>None\<close> where \<^verbatim>\<open>os.path.exists\<close> is false.
\<close>

type_synonym filesystem = "string \<Rightarrow> nat option"

section \<open>The data model\<close>

text \<open>
  The attributes of \<^verbatim>\<open>Activity\<close> and \<^verbatim>\<open>Report\<close>, typed as the constructors annotate
  them. The private attributes \<^verbatim>\<open>_duration\<close> and \<^verbatim>\<open>_instance_hours\<close> (the stored
  results of the calculations) are the fields \<open>stored_duration\<close> and \<open>stored_instance_hours\<close>.
  The constructor of \<^verbatim>\<open>Report\<close> always sets a date; the attribute is public, and
  \<^verbatim>\<open>validate_required_fields\<close> tests it, so the field \<open>date\<close> of a report is \<open>None\<close>
  when the attribute has been set to \<^verbatim>\<open>None\<close> and \<open>Some d\<close> when it holds the
  \<^verbatim>\<open>date\<close> object \<open>d\<close>.
\<close>

record Activity =
  title :: string
  description :: string
  start_time :: string
  end_time :: string
  images :: "string list"
  stored_duration :: string

record date =
  year :: int
  month :: int
  day :: int

record Report =
  responsible :: string
  student :: string
  date :: "date option"
  entry_time :: string
  exit_time :: string
  activities :: "Activity list"
  stored_instance_hours :: string

definition MAX_IMAGES :: nat where
  "MAX_IMAGES = 5"

definition MAX_SIZE_IMAGE_MB :: nat where
  "MAX_SIZE_IMAGE_MB = 10"

definition FORMATS_ALLOW_IMAGE :: "string list" where
  "FORMATS_ALLOW_IMAGE = [''.jpg'', ''.jpeg'', ''.png'']"

section \<open>Calculation of the derived times\<close>

text \<open>\<^verbatim>\<open>_validate_format_hour\<close> (the same in both classes): on a string,
  \<^verbatim>\<open>strptime\<close> raises nothing but \<^verbatim>\<open>ValueError\<close>, which is caught.\<close>

definition validate_format_hour :: "string \<Rightarrow> bool" where
  "validate_format_hour hour =
     (if hour = [] then False
      else case strptime_HM hour of Inl _ \<Rightarrow> False | Inr _ \<Rightarrow> True)"

text \<open>The formatted difference of two parsed times (the last lines of both calculations).\<close>

definition format_difference :: "datetime \<Rightarrow> datetime \<Rightarrow> string" where
  "format_difference start end =
     (let end' = (if end \<le> start then end + 86400 else end);
          difference = end' - start;
          hours = difference div 3600;
          minutes = (difference mod 3600) div 60
      in format_02d hours @ '':'' @ format_02d minutes)"

text \<open>The body of the \<^verbatim>\<open>try\<close> of \<^verbatim>\<open>Activity.calculate_duration\<close>.\<close>

definition calculate_duration_try :: "Activity \<Rightarrow> py_error + (Activity \<times> string)" where
  "calculate_duration_try a =
     (if \<not> validate_format_hour (start_time a) then
        Inr (a\<lparr>stored_duration := ''Invalid start time''\<rparr>, ''Invalid start time'')
      else if \<not> validate_format_hour (end_time a) then
        Inr (a\<lparr>stored_duration := ''Invalid end time''\<rparr>, ''Invalid end time'')
      else
        (case strptime_HM (start_time a) of
           Inl e \<Rightarrow> Inl e
         | Inr start \<Rightarrow>
             (case strptime_HM (end_time a) of
                Inl e \<Rightarrow> Inl e
              | Inr end \<Rightarrow>
                  Inr (a\<lparr>stored_duration := format_difference start end\<rparr>,
                       format_difference start end))))"

text \<open>\<^verbatim>\<open>Activity.calculate_duration\<close>: any exception of the body is caught.\<close>

definition calculate_duration :: "Activity \<Rightarrow> Activity \<times> string" where
  "calculate_duration a =
     (case calculate_duration_try a of
        Inr r \<Rightarrow> r
      | Inl _ \<Rightarrow> (a\<lparr>stored_duration := ''Calculate Error''\<rparr>, ''Calculate Error''))"

definition calculate_instance_hours_try :: "Report \<Rightarrow> py_error + (Report \<times> string)" where
  "calculate_instance_hours_try r =
     (if \<not> validate_format_hour (entry_time r) then
        Inr (r\<lparr>stored_instance_hours := ''Invalid entry time''\<rparr>, ''Invalid entry time'')
      else if \<not> validate_format_hour (exit_time r) then
        Inr (r\<lparr>stored_instance_hours := ''Invalid exit time''\<rparr>, ''Invalid exit time'')
      else
        (case strptime_HM (entry_time r) of
           Inl e \<Rightarrow> Inl e
         | Inr entry \<Rightarrow>
             (case strptime_HM (exit_time r) of
                Inl e \<Rightarrow> Inl e
              | Inr exit_dt \<Rightarrow>
                  Inr (r\<lparr>stored_instance_hours := format_difference entry exit_dt\<rparr>,
                       format_difference entry exit_dt))))"

definition calculate_instance_hours :: "Report \<Rightarrow> Report \<times> string" where
  "calculate_instance_hours r =
     (case calculate_instance_hours_try r of
        Inr x \<Rightarrow> x
      | Inl _ \<Rightarrow> (r\<lparr>stored_instance_hours := ''Calculate Error''\<rparr>, ''Calculate Error''))"

section \<open>Activity\<close>

text \<open>\<^verbatim>\<open>Activity.__init__\<close>: an absent list of images is the empty list; the duration
  is calculated when both times are non-empty.\<close>

definition Activity_init ::
  "string \<Rightarrow> string \<Rightarrow> string \<Rightarrow> string \<Rightarrow> string list option \<Rightarrow> Activity" where
  "Activity_init t d st en imgs =
     (let self = \<lparr>title = t, description = d, start_time = st, end_time = en,
                  images = (case imgs of None \<Rightarrow> [] | Some xs \<Rightarrow> xs), stored_duration = []\<rparr>
      in if start_time self \<noteq> [] \<and> end_time self \<noteq> [] then fst (calculate_duration self)
         else self)"

text \<open>
  \<^verbatim>\<open>hours, minutes = s.split(":")\<close> followed by \<^verbatim>\<open>int\<close> on both parts (in
  \<^verbatim>\<open>validate_hours\<close>: \<^verbatim>\<open>h, m = map(int, s.split(":"))\<close>). A wrong number of parts
  and a part that is no integer both raise \<^verbatim>\<open>ValueError\<close>.
\<close>

definition split_int_pair :: "string \<Rightarrow> py_error + (int \<times> int)" where
  "split_int_pair s =
     (case py_split (CHR '':'') s of
        [hours, minutes] \<Rightarrow>
          (case py_int hours of
             Inl e \<Rightarrow> Inl e
           | Inr h \<Rightarrow> (case py_int minutes of Inl e \<Rightarrow> Inl e | Inr m \<Rightarrow> Inr (h, m)))
      | _ \<Rightarrow> Inl ValueError)"

text \<open>The body of the \<^verbatim>\<open>try\<close> of \<^verbatim>\<open>Activity.get_duration_in_minutes\<close>; the activity
  is returned too, since the stored duration may have been calculated on the way.\<close>

definition get_duration_in_minutes_try :: "Activity \<Rightarrow> Activity \<times> (py_error + int)" where
  "get_duration_in_minutes_try a =
     (let a1 = (if stored_duration a = [] \<or> CHR '':'' \<notin> set (stored_duration a)
                then fst (calculate_duration a) else a)
      in if CHR '':'' \<notin> set (stored_duration a1) then (a1, Inr 0)
         else (a1, map_sum id (\<lambda>(hours, minutes). hours * 60 + minutes)
                     (split_int_pair (stored_duration a1))))"

text \<open>\<^verbatim>\<open>except (ValueError, AttributeError): return 0\<close>; the body raises nothing else.\<close>

definition get_duration_in_minutes :: "Activity \<Rightarrow> Activity \<times> int" where
  "get_duration_in_minutes a =
     (case get_duration_in_minutes_try a of
        (a1, Inr n) \<Rightarrow> (a1, n)
      | (a1, Inl _) \<Rightarrow> (a1, 0))"

text \<open>The property \<^verbatim>\<open>Activity.duration\<close>.\<close>

definition duration :: "Activity \<Rightarrow> Activity \<times> string" where
  "duration a =
     (let a1 = (if stored_duration a = [] then fst (calculate_duration a) else a)
      in (a1, stored_duration a1))"

definition Activity_validate_hours :: "Activity \<Rightarrow> bool \<times> string" where
  "Activity_validate_hours a =
     (if \<not> validate_format_hour (start_time a) then
        (False, ''Invalid start time: '' @ [CHR 0x27] @ start_time a @ [CHR 0x27]
                  @ ''. Use HH:MM format (00:00 - 23:59)'')
      else if \<not> validate_format_hour (end_time a) then
        (False, ''Invalid end time: '' @ [CHR 0x27] @ end_time a @ [CHR 0x27]
                  @ ''. Use HH:MM format (00:00 - 23:59)'')
      else
        (case split_int_pair (start_time a) of
           Inl _ \<Rightarrow> (False, ''Error processing times'')
         | Inr (h_start, m_start) \<Rightarrow>
             (case split_int_pair (end_time a) of
                Inl _ \<Rightarrow> (False, ''Error processing times'')
              | Inr (h_end, m_end) \<Rightarrow>
                  if \<not> (0 \<le> h_start \<and> h_start \<le> 23 \<and> 0 \<le> m_start \<and> m_start \<le> 59) then
                    (False, ''Start time out of range (00:00 - 23:59)'')
                  else if \<not> (0 \<le> h_end \<and> h_end \<le> 23 \<and> 0 \<le> m_end \<and> m_end \<le> 59) then
                    (False, ''End time out of range (00:00 - 23:59)'')
                  else (True, ''Valid hours''))))"

definition Activity_validate_required_fields :: "Activity \<Rightarrow> bool \<times> string" where
  "Activity_validate_required_fields a =
     (if title a = [] \<or> py_strip (title a) = [] then (False, ''Title is required'')
      else if description a = [] \<or> py_strip (description a) = [] then
        (False, ''Description is required'')
      else if start_time a = [] then (False, ''Start time is required'')
      else if end_time a = [] then (False, ''End time is required'')
      else (True, ''All fields complete''))"

text \<open>The loop of \<^verbatim>\<open>validate_images\<close> over \<^verbatim>\<open>enumerate(self.images)\<close>, from index \<open>i\<close>.\<close>

fun validate_images_from :: "filesystem \<Rightarrow> nat \<Rightarrow> string list \<Rightarrow> bool \<times> string" where
  "validate_images_from fs i [] = (True, ''Valid images'')"
| "validate_images_from fs i (path # rest) =
     (if fs path = None then
        (False, ''Image '' @ py_str (int i + 1) @ '' not found: '' @ path)
      else if py_lower (snd (splitext path)) \<notin> set FORMATS_ALLOW_IMAGE then
        (False, ''Image '' @ py_str (int i + 1) @ '' with invalid format'')
      else validate_images_from fs (Suc i) rest)"

definition validate_images :: "filesystem \<Rightarrow> Activity \<Rightarrow> bool \<times> string" where
  "validate_images fs a =
     (if length (images a) > MAX_IMAGES then
        (False, ''Too many images (max: '' @ py_str (int MAX_IMAGES) @ '')'')
      else validate_images_from fs 0 (images a))"

definition Activity_complete_validate :: "filesystem \<Rightarrow> Activity \<Rightarrow> bool \<times> string" where
  "Activity_complete_validate fs a =
     (case Activity_validate_required_fields a of
        (False, message) \<Rightarrow> (False, message)
      | (True, _) \<Rightarrow>
          (case Activity_validate_hours a of
             (False, message) \<Rightarrow> (False, message)
           | (True, _) \<Rightarrow>
               (case validate_images fs a of
                  (False, message) \<Rightarrow> (False, message)
                | (True, _) \<Rightarrow> (True, ''Valid activity''))))"

text \<open>\<^verbatim>\<open>Activity.delete_image\<close>.\<close>

definition delete_image :: "Activity \<Rightarrow> int \<Rightarrow> Activity \<times> bool \<times> string" where
  "delete_image a index =
     (if 0 \<le> index \<and> index < int (length (images a)) then
        (a\<lparr>images := pop_at (images a) (nat index)\<rparr>, True, ''Image deleted'')
      else (a, False, ''Invalid index''))"

text \<open>\<^verbatim>\<open>[self.images[i] for i in new_order]\<close>: the first failing index raises.\<close>

fun index_all :: "'a list \<Rightarrow> int list \<Rightarrow> py_error + 'a list" where
  "index_all xs [] = Inr []"
| "index_all xs (i # rest) =
     (case py_index xs i of
        Inl e \<Rightarrow> Inl e
      | Inr x \<Rightarrow> (case index_all xs rest of Inl e \<Rightarrow> Inl e | Inr ys \<Rightarrow> Inr (x # ys)))"

text \<open>\<^verbatim>\<open>Activity.reorganize_images\<close>; an \<^verbatim>\<open>IndexError\<close> of the body is caught.\<close>

definition reorganize_images :: "Activity \<Rightarrow> int list \<Rightarrow> Activity \<times> bool \<times> string" where
  "reorganize_images a new_order =
     (if length new_order \<noteq> length (images a) then
        (a, False, ''Number of indices doesn't match'')
      else if set new_order \<noteq> set (map int [0 ..< length (images a)]) then
        (a, False, ''Invalid indices'')
      else
        (case index_all (images a) new_order of
           Inr new_images \<Rightarrow> (a\<lparr>images := new_images\<rparr>, True, ''Images reordered'')
         | Inl _ \<Rightarrow> (a, False, ''Error reordering images'')))"

section \<open>Report\<close>

text \<open>\<^verbatim>\<open>Report.__init__\<close>; \<open>today\<close> is what \<^verbatim>\<open>date.today()\<close> returns.\<close>

definition Report_init ::
  "date \<Rightarrow> string \<Rightarrow> string \<Rightarrow> date option \<Rightarrow> string \<Rightarrow> string \<Rightarrow> Activity list option \<Rightarrow> Report" where
  "Report_init today resp stud report_date entry exit_t acts =
     (let self = \<lparr>responsible = resp, student = stud,
                  date = Some (case report_date of None \<Rightarrow> today | Some d \<Rightarrow> d),
                  entry_time = entry, exit_time = exit_t,
                  activities = (case acts of None \<Rightarrow> [] | Some xs \<Rightarrow> xs),
                  stored_instance_hours = []\<rparr>
      in if entry_time self \<noteq> [] \<and> exit_time self \<noteq> [] then fst (calculate_instance_hours self)
         else self)"

text \<open>The property \<^verbatim>\<open>Report.instance_hours\<close>.\<close>

definition instance_hours :: "Report \<Rightarrow> Report \<times> string" where
  "instance_hours r =
     (let r1 = (if stored_instance_hours r = [] then fst (calculate_instance_hours r) else r)
      in (r1, stored_instance_hours r1))"

definition get_instance_hours_in_minutes_try :: "Report \<Rightarrow> Report \<times> (py_error + int)" where
  "get_instance_hours_in_minutes_try r =
     (let r1 = (if stored_instance_hours r = [] \<or> CHR '':'' \<notin> set (stored_instance_hours r)
                then fst (calculate_instance_hours r) else r)
      in if CHR '':'' \<notin> set (stored_instance_hours r1) then (r1, Inr 0)
         else (r1, map_sum id (\<lambda>(hours, minutes). hours * 60 + minutes)
                     (split_int_pair (stored_instance_hours r1))))"

definition get_instance_hours_in_minutes :: "Report \<Rightarrow> Report \<times> int" where
  "get_instance_hours_in_minutes r =
     (case get_instance_hours_in_minutes_try r of
        (r1, Inr n) \<Rightarrow> (r1, n)
      | (r1, Inl _) \<Rightarrow> (r1, 0))"

text \<open>
  \<^verbatim>\<open>sum(activity.get_duration_in_minutes() for activity in self.activities)\<close>: each
  call may store a duration in its activity, so the activities are returned as well.
\<close>

fun sum_duration_minutes :: "Activity list \<Rightarrow> Activity list \<times> int" where
  "sum_duration_minutes [] = ([], 0)"
| "sum_duration_minutes (a # rest) =
     (case get_duration_in_minutes a of
        (a1, n) \<Rightarrow> (case sum_duration_minutes rest of (rest1, subtotal) \<Rightarrow> (a1 # rest1, n + subtotal)))"

definition calculate_total_activity_hours :: "Report \<Rightarrow> Report \<times> string" where
  "calculate_total_activity_hours r =
     (case sum_duration_minutes (activities r) of
        (acts, total_minutes) \<Rightarrow>
          (let hours = total_minutes div 60;
               minutes = total_minutes mod 60
           in (r\<lparr>activities := acts\<rparr>, format_02d hours @ '':'' @ format_02d minutes)))"

definition calculate_average_duration :: "Report \<Rightarrow> Report \<times> string" where
  "calculate_average_duration r =
     (if activities r = [] then (r, ''00:00'')
      else
        (case sum_duration_minutes (activities r) of
           (acts, total_minutes) \<Rightarrow>
             (let avg_minutes = total_minutes div int (length (activities r));
                  hours = avg_minutes div 60;
                  minutes = avg_minutes mod 60
              in (r\<lparr>activities := acts\<rparr>, format_02d hours @ '':'' @ format_02d minutes))))"

text \<open>\<^verbatim>\<open>Report.remove_activity\<close>, \<^verbatim>\<open>edit_activity\<close> and \<^verbatim>\<open>move_activity\<close>. The
  argument of \<^verbatim>\<open>edit_activity\<close> is an \<^verbatim>\<open>Activity\<close> by its type here.\<close>

definition remove_activity :: "Report \<Rightarrow> int \<Rightarrow> Report \<times> bool \<times> string" where
  "remove_activity r index =
     (if 0 \<le> index \<and> index < int (length (activities r)) then
        (let removed = activities r ! nat index
         in (r\<lparr>activities := pop_at (activities r) (nat index)\<rparr>, True,
             ''Activity '' @ [CHR 0x27] @ title removed @ [CHR 0x27] @ '' removed''))
      else (r, False, ''Invalid index''))"

definition edit_activity :: "filesystem \<Rightarrow> Report \<Rightarrow> int \<Rightarrow> Activity \<Rightarrow> Report \<times> bool \<times> string" where
  "edit_activity fs r index updated_activity =
     (if \<not> (0 \<le> index \<and> index < int (length (activities r))) then (r, False, ''Invalid index'')
      else
        (case Activity_complete_validate fs updated_activity of
           (False, message) \<Rightarrow> (r, False, ''Invalid activity: '' @ message)
         | (True, _) \<Rightarrow>
             (let old_title = title (activities r ! nat index)
              in (r\<lparr>activities := (activities r)[nat index := updated_activity]\<rparr>, True,
                  ''Activity '' @ [CHR 0x27] @ old_title @ [CHR 0x27] @ '' updated''))))"

definition move_activity :: "Report \<Rightarrow> int \<Rightarrow> int \<Rightarrow> Report \<times> bool \<times> string" where
  "move_activity r from_index to_index =
     (if \<not> (0 \<le> from_index \<and> from_index < int (length (activities r))) then
        (r, False, ''Invalid source index'')
      else if \<not> (0 \<le> to_index \<and> to_index < int (length (activities r))) then
        (r, False, ''Invalid destination index'')
      else
        (let activity = activities r ! nat from_index
         in (r\<lparr>activities := insert_at (pop_at (activities r) (nat from_index)) (nat to_index) activity\<rparr>,
             True, ''Activity '' @ [CHR 0x27] @ title activity @ [CHR 0x27] @ '' moved'')))"






section \<open>Statistics and serialization\<close>

text \<open>
  \<^verbatim>\<open>max(self.activities, key=...)\<close> and \<^verbatim>\<open>min\<close>: the key is computed once for each
  activity, in order, and the first activity with the greatest (least) key is taken. The
  source names the two methods \<^verbatim>\<open>_get_longest_activity\<close> and
  \<^verbatim>\<open>_get_shortest_activity\<close>, and the average \<^verbatim>\<open>_calculate_average_duration\<close>.
\<close>

definition first_best :: "(int \<Rightarrow> int \<Rightarrow> bool) \<Rightarrow> ('a \<times> int) \<Rightarrow> ('a \<times> int) list \<Rightarrow> 'a" where
  "first_best better p ps = fst (foldl (\<lambda>best q. if better (snd q) (snd best) then q else best) p ps)"

definition get_longest_activity :: "Report \<Rightarrow> Report \<times> string option" where
  "get_longest_activity r =
     (case map get_duration_in_minutes (activities r) of
        [] \<Rightarrow> (r, None)
      | p # ps \<Rightarrow>
          (r\<lparr>activities := map fst (p # ps)\<rparr>, Some (title (first_best (\<lambda>k b. k > b) p ps))))"

definition get_shortest_activity :: "Report \<Rightarrow> Report \<times> string option" where
  "get_shortest_activity r =
     (case map get_duration_in_minutes (activities r) of
        [] \<Rightarrow> (r, None)
      | p # ps \<Rightarrow>
          (r\<lparr>activities := map fst (p # ps)\<rparr>, Some (title (first_best (\<lambda>k b. k < b) p ps))))"

record Statistics =
  total_activities :: int
  total_activity_hours :: string
  statistics_instance_hours :: string
  total_images :: int
  activities_with_images :: int
  average_activity_duration :: string
  longest_activity :: "string option"
  shortest_activity :: "string option"

text \<open>\<^verbatim>\<open>Report.get_statistics\<close>; the entries are computed in the order of the source.\<close>

definition get_statistics :: "Report \<Rightarrow> Report \<times> Statistics" where
  "get_statistics r =
     (case calculate_total_activity_hours r of (r1, total_hours) \<Rightarrow>
      case instance_hours r1 of (r2, hours) \<Rightarrow>
      case calculate_average_duration r2 of (r3, average) \<Rightarrow>
      case get_longest_activity r3 of (r4, longest) \<Rightarrow>
      case get_shortest_activity r4 of (r5, shortest) \<Rightarrow>
        (r5, \<lparr>total_activities = int (length (activities r)),
              total_activity_hours = total_hours,
              statistics_instance_hours = hours,
              total_images = int (sum_list (map (\<lambda>a. length (images a)) (activities r2))),
              activities_with_images = int (length (filter (\<lambda>a. length (images a) > 0) (activities r2))),
              average_activity_duration = average,
              longest_activity = longest,
              shortest_activity = shortest\<rparr>))"

subsection \<open>Dates\<close>

text \<open>
  A \<^verbatim>\<open>date\<close> object of Python always satisfies \<open>valid_date\<close>. \<^verbatim>\<open>date.isoformat\<close> is
  \<^verbatim>\<open>"%04d-%02d-%02d"\<close>.
\<close>

definition is_leap :: "int \<Rightarrow> bool" where
  "is_leap y = (y mod 4 = 0 \<and> (y mod 100 \<noteq> 0 \<or> y mod 400 = 0))"

definition days_in_month :: "int \<Rightarrow> int \<Rightarrow> int" where
  "days_in_month y m =
     (if m = 2 then (if is_leap y then 29 else 28)
      else if m = 4 \<or> m = 6 \<or> m = 9 \<or> m = 11 then 30 else 31)"

definition valid_date :: "date \<Rightarrow> bool" where
  "valid_date d =
     (1 \<le> year d \<and> year d \<le> 9999 \<and> 1 \<le> month d \<and> month d \<le> 12
      \<and> 1 \<le> day d \<and> day d \<le> days_in_month (year d) (month d))"

definition zero_pad :: "nat \<Rightarrow> int \<Rightarrow> string" where
  "zero_pad w n =
     (if n < 0 then
        CHR ''-'' # replicate (w - 1 - length (digits_of (nat (- n)))) (CHR ''0'')
          @ digits_of (nat (- n))
      else replicate (w - length (digits_of (nat n))) (CHR ''0'') @ digits_of (nat n))"

definition isoformat :: "date \<Rightarrow> string" where
  "isoformat d = zero_pad 4 (year d) @ ''-'' @ zero_pad 2 (month d) @ ''-'' @ zero_pad 2 (day d)"

text \<open>
  \<^verbatim>\<open>date.fromisoformat\<close> as Python 3.11 and later read a string (before 3.11 only
  \<open>YYYY-MM-DD\<close> was read, the format that \<^verbatim>\<open>isoformat\<close> writes). The UTF-8 encoding of
  the string must be 7, 8 or 10 bytes long; a character below 128 is one byte and the
  others below 256 are two. Then come four digits of a year and an optional \<open>-\<close>, and
  either \<open>W\<close>, two digits of an ISO week and, if the string goes on, the separator as
  before and one digit of a weekday; or two digits of a month, the separator as before and
  two digits of a day. After a weekday or a day nothing more is read, so that
  \<open>20240517\<close> followed by two more bytes is still read as a date. A week date is
  converted through the ordinal of the Monday of the first ISO week; in the year
  \<open>0000\<close> no week date names a day of the calendar. The result must be a date of the
  calendar; everything else raises \<^verbatim>\<open>ValueError\<close>.
\<close>

definition utf8_length :: "string \<Rightarrow> nat" where
  "utf8_length s = sum_list (map (\<lambda>c. if (of_char c :: nat) < 128 then 1 else 2) s)"

definition parse_digits :: "nat \<Rightarrow> string \<Rightarrow> (int \<times> string) option" where
  "parse_digits n s =
     (if n \<le> length s \<and> list_all is_digit (take n s)
      then Some (int (digits_val (take n s)), drop n s)
      else None)"

definition days_before_month_table :: "int list" where
  "days_before_month_table = [0, 0, 31, 59, 90, 120, 151, 181, 212, 243, 273, 304, 334]"

definition days_before_year :: "int \<Rightarrow> int" where
  "days_before_year y = (y - 1) * 365 + (y - 1) div 4 - (y - 1) div 100 + (y - 1) div 400"

definition days_before_month :: "int \<Rightarrow> int \<Rightarrow> int" where
  "days_before_month y m =
     days_before_month_table ! nat m + (if m > 2 \<and> is_leap y then 1 else 0)"

definition ymd_to_ord :: "int \<Rightarrow> int \<Rightarrow> int \<Rightarrow> int" where
  "ymd_to_ord y m d = days_before_year y + days_before_month y m + d"

definition weekday :: "int \<Rightarrow> int \<Rightarrow> int \<Rightarrow> int" where
  "weekday y m d = (ymd_to_ord y m d + 6) mod 7"

definition iso_week1_monday :: "int \<Rightarrow> int" where
  "iso_week1_monday y =
     (let first_day = ymd_to_ord y 1 1;
          first_weekday = (first_day + 6) mod 7;
          week1_monday = first_day - first_weekday
      in if first_weekday > 3 then week1_monday + 7 else week1_monday)"

definition ord_to_ymd :: "int \<Rightarrow> date" where
  "ord_to_ymd ordinal =
     (let n400 = (ordinal - 1) div 146097;
          r400 = (ordinal - 1) mod 146097;
          n100 = r400 div 36524;
          r100 = r400 mod 36524;
          n4 = r100 div 1461;
          r4 = r100 mod 1461;
          n1 = r4 div 365;
          n = r4 mod 365;
          y = n400 * 400 + 1 + n100 * 100 + n4 * 4 + n1
      in if n1 = 4 \<or> n100 = 4 then \<lparr>year = y - 1, month = 12, day = 31\<rparr>
         else
           (let leapyear = (n1 = 3 \<and> (n4 \<noteq> 24 \<or> n100 = 3));
                m = (n + 50) div 32;
                preceding = days_before_month_table ! nat m + (if m > 2 \<and> leapyear then 1 else 0)
            in if preceding > n
               then \<lparr>year = y, month = m - 1,
                      day = n - (preceding - days_in_month y (m - 1)) + 1\<rparr>
               else \<lparr>year = y, month = m, day = n - preceding + 1\<rparr>))"

definition iso_to_ymd :: "int \<Rightarrow> int \<Rightarrow> int \<Rightarrow> date option" where
  "iso_to_ymd iso_year iso_week iso_day =
     (if iso_year < 1 then None
      else if (iso_week \<le> 0 \<or> iso_week \<ge> 53)
              \<and> \<not> (iso_week = 53
                     \<and> (weekday iso_year 1 1 = 3 \<or> (weekday iso_year 1 1 = 2 \<and> is_leap iso_year)))
      then None
      else if iso_day \<le> 0 \<or> iso_day \<ge> 8 then None
      else Some (ord_to_ymd (iso_week1_monday iso_year + (iso_week - 1) * 7 + iso_day - 1)))"

definition parse_isoformat_date :: "string \<Rightarrow> date option" where
  "parse_isoformat_date s =
     (case parse_digits 4 s of
        None \<Rightarrow> None
      | Some (y, r) \<Rightarrow>
          (let uses_separator = (r \<noteq> [] \<and> hd r = CHR ''-'');
               p = (if uses_separator then tl r else r)
           in if p \<noteq> [] \<and> hd p = CHR ''W'' then
                (case parse_digits 2 (tl p) of
                   None \<Rightarrow> None
                 | Some (w, q) \<Rightarrow>
                     if q = [] then iso_to_ymd y w 1
                     else if uses_separator \<and> hd q \<noteq> CHR ''-'' then None
                     else
                       (case parse_digits 1 (if uses_separator then tl q else q) of
                          None \<Rightarrow> None
                        | Some (d, _) \<Rightarrow> iso_to_ymd y w d))
              else
                (case parse_digits 2 p of
                   None \<Rightarrow> None
                 | Some (m, q) \<Rightarrow>
                     if uses_separator \<and> (q = [] \<or> hd q \<noteq> CHR ''-'') then None
                     else
                       (case parse_digits 2 (if uses_separator then tl q else q) of
                          None \<Rightarrow> None
                        | Some (d, _) \<Rightarrow> Some \<lparr>year = y, month = m, day = d\<rparr>))))"

definition date_fromisoformat :: "string \<Rightarrow> py_error + date" where
  "date_fromisoformat s =
     (if utf8_length s = 7 \<or> utf8_length s = 8 \<or> utf8_length s = 10 then
        (case parse_isoformat_date s of
           None \<Rightarrow> Inl ValueError
         | Some d \<Rightarrow> if valid_date d then Inr d else Inl ValueError)
      else Inl ValueError)"

subsection \<open>Dictionaries\<close>

text \<open>
  The dictionaries that \<^verbatim>\<open>to_dict\<close> writes and \<^verbatim>\<open>from_dict\<close> reads, as records of
  their keys: a field is the value under the key of that name, \<open>None\<close> when the key is
  absent. \<^verbatim>\<open>from_dict\<close> hands the values of most keys to the constructors as they are,
  so they have the types of the constructors' parameters here. It examines the value under
  \<^verbatim>\<open>date\<close> itself, which is therefore any value that a JSON document can hold
  (numbers are the integers).
\<close>

datatype json =
    JNull
  | JBool bool
  | JNumber int
  | JString string
  | JArray "json list"
  | JObject "(string \<times> json) list"

text \<open>The truth value of a JSON value in a condition of Python.\<close>

fun truthy :: "json \<Rightarrow> bool" where
  "truthy JNull = False"
| "truthy (JBool b) = b"
| "truthy (JNumber n) = (n \<noteq> 0)"
| "truthy (JString s) = (s \<noteq> [])"
| "truthy (JArray xs) = (xs \<noteq> [])"
| "truthy (JObject kvs) = (kvs \<noteq> [])"

record Activity_dict =
  title_key :: "string option"
  description_key :: "string option"
  start_time_key :: "string option"
  end_time_key :: "string option"
  duration_key :: "string option"
  images_key :: "string list option"
  number_images_key :: "int option"

record Report_dict =
  responsible_key :: "string option"
  student_key :: "string option"
  date_key :: "json option"
  entry_time_key :: "string option"
  exit_time_key :: "string option"
  instance_hours_key :: "string option"
  activities_key :: "Activity_dict list option"
  statistics_key :: "Statistics option"

text \<open>\<^verbatim>\<open>d.get(key, default)\<close>.\<close>

definition get_or :: "'a option \<Rightarrow> 'a \<Rightarrow> 'a" where
  "get_or entry dflt = (case entry of None \<Rightarrow> dflt | Some v \<Rightarrow> v)"

text \<open>\<^verbatim>\<open>Activity.to_dict\<close>; reading the property \<^verbatim>\<open>duration\<close> may store it.\<close>

definition Activity_to_dict :: "Activity \<Rightarrow> Activity \<times> Activity_dict" where
  "Activity_to_dict a =
     (case duration a of
        (a1, dur) \<Rightarrow>
          (a1, \<lparr>title_key = Some (title a), description_key = Some (description a),
                start_time_key = Some (start_time a), end_time_key = Some (end_time a),
                duration_key = Some dur, images_key = Some (images a1),
                number_images_key = Some (int (length (images a1)))\<rparr>))"

text \<open>\<^verbatim>\<open>Activity.from_dict\<close>: a missing or empty list of images is a new empty list.\<close>

definition Activity_from_dict :: "Activity_dict \<Rightarrow> Activity" where
  "Activity_from_dict data =
     Activity_init (get_or (title_key data) [])
       (get_or (description_key data) [])
       (get_or (start_time_key data) ''00:00'')
       (get_or (end_time_key data) ''00:00'')
       (Some (case images_key data of
                None \<Rightarrow> []
              | Some xs \<Rightarrow> if xs \<noteq> [] then xs else []))"

text \<open>
  \<^verbatim>\<open>Report.to_dict\<close>; the entries are computed in the order of the source. The third
  entry is \<^verbatim>\<open>self.date.isoformat()\<close>, which raises \<^verbatim>\<open>AttributeError\<close> when the date is
  \<^verbatim>\<open>None\<close>, before anything is stored.
\<close>

definition Report_to_dict :: "Report \<Rightarrow> py_error + (Report \<times> Report_dict)" where
  "Report_to_dict r =
     (case date r of
        None \<Rightarrow> Inl AttributeError
      | Some d \<Rightarrow>
          (case instance_hours r of (r1, hours) \<Rightarrow>
           case map Activity_to_dict (activities r1) of ps \<Rightarrow>
           case get_statistics (r1\<lparr>activities := map fst ps\<rparr>) of (r3, stats) \<Rightarrow>
             Inr (r3, \<lparr>responsible_key = Some (responsible r), student_key = Some (student r),
                        date_key = Some (JString (isoformat d)),
                        entry_time_key = Some (entry_time r), exit_time_key = Some (exit_time r),
                        instance_hours_key = Some hours,
                        activities_key = Some (map snd ps),
                        statistics_key = Some stats\<rparr>)))"

text \<open>
  \<^verbatim>\<open>Report.from_dict\<close>. \<^verbatim>\<open>date.fromisoformat\<close> raises \<^verbatim>\<open>TypeError\<close> on an argument
  that is no string; the \<^verbatim>\<open>except\<close> clause catches \<^verbatim>\<open>ValueError\<close> only.
\<close>

definition parse_date_entry :: "date \<Rightarrow> json option \<Rightarrow> py_error + date option" where
  "parse_date_entry today entry =
     (case entry of
        None \<Rightarrow> Inr None
      | Some v \<Rightarrow>
          if \<not> truthy v then Inr None
          else
            (case v of
               JString s \<Rightarrow>
                 (case date_fromisoformat s of
                    Inr d \<Rightarrow> Inr (Some d)
                  | Inl ValueError \<Rightarrow> Inr (Some today)
                  | Inl e \<Rightarrow> Inl e)
             | _ \<Rightarrow> Inl TypeError))"

definition Report_from_dict :: "date \<Rightarrow> Report_dict \<Rightarrow> py_error + Report" where
  "Report_from_dict today data =
     (case parse_date_entry today (date_key data) of
        Inl e \<Rightarrow> Inl e
      | Inr report_date \<Rightarrow>
          (let acts = (case activities_key data of
                         None \<Rightarrow> []
                       | Some ds \<Rightarrow> if ds \<noteq> [] then map Activity_from_dict ds else [])
           in Inr (Report_init today
                     (get_or (responsible_key data) [])
                     (get_or (student_key data) [])
                     report_date
                     (get_or (entry_time_key data) ''00:00'')
                     (get_or (exit_time_key data) ''00:00'')
                     (Some acts))))"

section \<open>Notions of the specification\<close>

text \<open>
  A well-formed 24-hour time \<open>HH:MM\<close>: two digits, a colon, two digits, the hour at most
  23 and the minute at most 59; and the minute of the day that it names.
\<close>

definition hour_of :: "string \<Rightarrow> nat" where
  "hour_of s = digits_val (take 2 s)"

definition minute_of :: "string \<Rightarrow> nat" where
  "minute_of s = digits_val (drop 3 s)"

definition wellformed_hhmm :: "string \<Rightarrow> bool" where
  "wellformed_hhmm s =
     (length s = 5 \<and> is_digit (s ! 0) \<and> is_digit (s ! 1) \<and> s ! 2 = CHR '':''
      \<and> is_digit (s ! 3) \<and> is_digit (s ! 4) \<and> hour_of s \<le> 23 \<and> minute_of s \<le> 59)"

definition minutes_of_day :: "string \<Rightarrow> int" where
  "minutes_of_day s = 60 * int (hour_of s) + int (minute_of s)"

text \<open>
  The rule of the specification for the time between a start and an end: the end minus
  the start when the end is later, and otherwise the end of the next day minus the
  start; written as two digits of hours, a colon and two digits of minutes.
\<close>

definition elapsed_minutes :: "string \<Rightarrow> string \<Rightarrow> int" where
  "elapsed_minutes start end =
     (if minutes_of_day end > minutes_of_day start then minutes_of_day end - minutes_of_day start
      else minutes_of_day end + 24 * 60 - minutes_of_day start)"

definition two_digits :: "nat \<Rightarrow> string" where
  "two_digits n = [digit_char (n div 10), digit_char (n mod 10)]"

definition elapsed_hhmm :: "string \<Rightarrow> string \<Rightarrow> string" where
  "elapsed_hhmm start end =
     two_digits (nat (elapsed_minutes start end div 60)) @ '':'' @
     two_digits (nat (elapsed_minutes start end mod 60))"

text \<open>The sentinel that stands for the result when a time does not parse.\<close>

definition duration_sentinel :: "Activity \<Rightarrow> string" where
  "duration_sentinel a =
     (if isl (strptime_HM (start_time a)) then ''Invalid start time'' else ''Invalid end time'')"

definition instance_hours_sentinel :: "Report \<Rightarrow> string" where
  "instance_hours_sentinel r =
     (if isl (strptime_HM (entry_time r)) then ''Invalid entry time'' else ''Invalid exit time'')"

text \<open>An activity and a report as the examples of the source files construct them, and
  a file system with one image of 11 MB.\<close>

definition example_activity :: Activity where
  "example_activity = Activity_init ''Reading'' ''Review'' ''09:00'' ''11:30'' None"

definition example_report :: Report where
  "example_report =
     Report_init \<lparr>year = 2024, month = 5, day = 17\<rparr> ''Dr. Smith'' ''John Doe'' None
       ''08:00'' ''17:00'' None"

definition big_image_fs :: filesystem where
  "big_image_fs = (\<lambda>p. if p = ''/photos/big.png'' then Some (11 * 1024 * 1024) else None)"

text \<open>
  The string that the total and the average build from a number of minutes (the last
  lines of both methods); the sum of the durations in minutes of a list of activities, as
  \<^verbatim>\<open>get_duration_in_minutes\<close> returns them; and the report of the specification's
  scenario, with activities of 02:30 and 01:30.
\<close>

definition hhmm_of_minutes :: "int \<Rightarrow> string" where
  "hhmm_of_minutes t = format_02d (t div 60) @ '':'' @ format_02d (t mod 60)"

definition total_minutes :: "Activity list \<Rightarrow> int" where
  "total_minutes acts = sum_list (map (\<lambda>a. snd (get_duration_in_minutes a)) acts)"

definition two_activities_report :: Report where
  "two_activities_report =
     example_report\<lparr>activities :=
       [Activity_init ''Python Programming'' ''Reporting system'' ''09:00'' ''11:30'' None,
        Activity_init ''Documentation'' ''Technical documentation'' ''13:00'' ''14:30'' None]\<rparr>"

definition three_images :: Activity where
  "three_images = example_activity\<lparr>images := [''a.png'', ''b.png'', ''c.png'']\<rparr>"

text \<open>A document whose date is a number, a report with images, and the fields of an
  activity that the round trip through \<^verbatim>\<open>to_dict\<close> and \<^verbatim>\<open>from_dict\<close> is about.\<close>

definition numeric_date_document :: Report_dict where
  "numeric_date_document =
     \<lparr>responsible_key = Some ''Dr. Smith'', student_key = Some ''John Doe'',
      date_key = Some (JNumber 20240101), entry_time_key = Some ''08:00'',
      exit_time_key = Some ''17:00'', instance_hours_key = None, activities_key = None,
      statistics_key = None\<rparr>"

definition report_with_images :: Report where
  "report_with_images = example_report\<lparr>activities := [three_images, example_activity]\<rparr>"

definition saved_fields :: "Activity \<Rightarrow> string \<times> string \<times> string \<times> string list" where
  "saved_fields a = (title a, start_time a, end_time a, images a)"

text \<open>
  What \<^verbatim>\<open>strptime\<close> with \<^verbatim>\<open>%H:%M\<close> accepts, said without the parser: one or two
  digits of an hour up to 23, a colon, and one or two digits of a minute up to 59.
\<close>

definition digits_upto :: "nat \<Rightarrow> string \<Rightarrow> bool" where
  "digits_upto n s = ((length s = 1 \<or> length s = 2) \<and> list_all is_digit s \<and> digits_val s \<le> n)"

definition parseable_time :: "string \<Rightarrow> bool" where
  "parseable_time s =
     (case py_split (CHR '':'') s of
        [h, m] \<Rightarrow> digits_upto 23 h \<and> digits_upto 59 m
      | _ \<Rightarrow> False)"


text \<open>An image that the validation accepts: its file exists and its extension is
  allowed.\<close>

definition image_ok :: "filesystem \<Rightarrow> string \<Rightarrow> bool" where
  "image_ok fs path = (fs path \<noteq> None \<and> py_lower (snd (splitext path)) \<in> set FORMATS_ALLOW_IMAGE)"

text \<open>
  The minute of the day that a time names, for the times that the format check accepts;
  and the duration in minutes of an activity by the rule of the specification: the end
  minus the start when the end is later, otherwise the end of the next day minus the
  start, and 0 when one of the two times is not readable.
\<close>

definition time_of_day :: "string \<Rightarrow> int option" where
  "time_of_day s =
     (if parseable_time s then
        (case py_split (CHR '':'') s of
           [h, m] \<Rightarrow> Some (60 * int (digits_val h) + int (digits_val m))
         | _ \<Rightarrow> None)
      else None)"

definition spec_duration_minutes :: "Activity \<Rightarrow> int" where
  "spec_duration_minutes a =
     (case (time_of_day (start_time a), time_of_day (end_time a)) of
        (Some s, Some e) \<Rightarrow> if e > s then e - s else e + 24 * 60 - s
      | _ \<Rightarrow> 0)"

text \<open>An activity whose stored duration is not stale: nothing is stored yet, or what is
  stored is the duration of the present times.\<close>

definition duration_up_to_date :: "Activity \<Rightarrow> bool" where
  "duration_up_to_date a =
     (stored_duration a = [] \<or> stored_duration a = snd (calculate_duration a))"

text \<open>
  What it is for a string to be a number written with \<^verbatim>\<open>02d\<close>, said by reading the
  string: decimal digits whose value is the number, two of them, or more than two without
  a leading zero; for a negative number a minus sign and the digits of its absolute value
  without a leading zero. A string spells a number of minutes as hours and minutes when
  its part before the colon is the quotient by 60 written so and its part after the colon
  the remainder.
\<close>

definition plain_decimal :: "string \<Rightarrow> bool" where
  "plain_decimal s = (s \<noteq> [] \<and> list_all is_digit s \<and> (length s = 1 \<or> hd s \<noteq> CHR ''0''))"

definition spells_02d :: "int \<Rightarrow> string \<Rightarrow> bool" where
  "spells_02d n s =
     (if n < 0 then
        s \<noteq> [] \<and> hd s = CHR ''-'' \<and> plain_decimal (tl s) \<and> int (digits_val (tl s)) = - n
      else
        list_all is_digit s \<and> int (digits_val s) = n
        \<and> (length s = 2 \<or> (length s > 2 \<and> hd s \<noteq> CHR ''0'')))"

definition spells_hhmm :: "int \<Rightarrow> string \<Rightarrow> bool" where
  "spells_hhmm t s =
     (case py_split (CHR '':'') s of
        [h, m] \<Rightarrow> spells_02d (t div 60) h \<and> spells_02d (t mod 60) m
      | _ \<Rightarrow> False)"

section \<open>Properties of the time calculation\<close>

lemma list_of_length_5: "length s = 5 \<Longrightarrow> \<exists>a b c d e. s = [a, b, c, d, e]"
  by (auto simp: length_Suc_conv eval_nat_numeral)

lemma char_code_eq: "(c = d) = ((of_char c :: nat) = of_char d)"
  by simp

lemma wellformed_strptime:
  assumes "wellformed_hhmm s"
  shows "strptime_HM s = Inr (60 * minutes_of_day s)"
proof -
  from assms obtain a b c d e where s: "s = [a, b, c, d, e]"
    unfolding wellformed_hhmm_def using list_of_length_5 by blast
  have two: "a = CHR ''2'' \<longleftrightarrow> (of_char a :: nat) = 50"
    and col: "b = CHR '':'' \<longleftrightarrow> (of_char b :: nat) = 58"
    by (simp_all add: char_code_eq [of _ "CHR ''2''"] char_code_eq [of _ "CHR '':''"])
  show ?thesis using assms unfolding s
    apply (simp add: wellformed_hhmm_def strptime_HM_def re_match_HM_def directive_H_def
        directive_M_def alt1_def alt2_def colon_def hour_of_def minute_of_def
        minutes_of_day_def digits_val_def is_digit_def in_range_def digit_val_def two col)
    apply arith
    done
qed

lemma zero_char: "CHR ''0'' = char_of (48::nat)"
  by code_simp

lemma format_02d_two_digits: "0 \<le> n \<Longrightarrow> n < 100 \<Longrightarrow> format_02d n = two_digits (nat n)"
  by (auto simp: format_02d_def two_digits_def digits_of.simps [of "nat n"]
        digits_of.simps [of "nat n div 10"] digit_char_def zero_char)

lemma minutes_of_day_bounds:
  "wellformed_hhmm s \<Longrightarrow> 0 \<le> minutes_of_day s \<and> minutes_of_day s < 1440"
  by (simp add: wellformed_hhmm_def minutes_of_day_def)

lemma elapsed_minutes_bounds:
  "wellformed_hhmm st \<Longrightarrow> wellformed_hhmm en \<Longrightarrow>
     0 < elapsed_minutes st en \<and> elapsed_minutes st en \<le> 1440"
  using minutes_of_day_bounds [of st] minutes_of_day_bounds [of en]
  by (simp add: elapsed_minutes_def)

lemma format_difference_wellformed:
  assumes "wellformed_hhmm st" "wellformed_hhmm en"
  shows "format_difference (60 * minutes_of_day st) (60 * minutes_of_day en) = elapsed_hhmm st en"
proof -
  let ?d = "elapsed_minutes st en"
  have b: "0 < ?d" "?d \<le> 1440" using elapsed_minutes_bounds [OF assms] by simp_all
  have diff: "(if 60 * minutes_of_day en \<le> 60 * minutes_of_day st
               then 60 * minutes_of_day en + 86400 else 60 * minutes_of_day en)
              - 60 * minutes_of_day st = 60 * ?d"
    by (simp add: elapsed_minutes_def)
  have h: "(60 * ?d) div 3600 = ?d div 60" by simp
  have "60 * ?d mod 3600 = 60 * (?d mod 60)" using mult_mod_right [of 60 ?d 60] by simp
  then have m: "((60 * ?d) mod 3600) div 60 = ?d mod 60" by simp
  have hb: "0 \<le> ?d div 60" "?d div 60 < 100" using b by simp_all
  have mb: "0 \<le> ?d mod 60" "?d mod 60 < 100" using b by simp_all
  show ?thesis
    unfolding format_difference_def Let_def diff h m elapsed_hhmm_def
    by (simp add: format_02d_two_digits [OF hb] format_02d_two_digits [OF mb])
qed

lemma wellformed_validate: "wellformed_hhmm s \<Longrightarrow> validate_format_hour s"
  using wellformed_strptime [of s] by (auto simp: validate_format_hour_def wellformed_hhmm_def)

text \<open>
  Claim C1. For well-formed times \<open>st\<close> and \<open>en\<close>, \<^verbatim>\<open>Activity.calculate_duration\<close> on an
  activity with these start and end times, and \<^verbatim>\<open>Report.calculate_instance_hours\<close> on a
  report with these entry and exit times, store and return the elapsed time of the
  specification: \<open>en - st\<close> when \<open>en\<close> is later than \<open>st\<close>, and \<open>en + 24h - st\<close> otherwise,
  as zero-padded hours and minutes. The elapsed time is positive and at most 24 hours.
\<close>

theorem duration_of_wellformed_times:
  assumes "wellformed_hhmm st" and "wellformed_hhmm en"
    and "start_time a = st" and "end_time a = en"
    and "entry_time r = st" and "exit_time r = en"
  shows "calculate_duration a = (a\<lparr>stored_duration := elapsed_hhmm st en\<rparr>, elapsed_hhmm st en)
       \<and> calculate_instance_hours r
           = (r\<lparr>stored_instance_hours := elapsed_hhmm st en\<rparr>, elapsed_hhmm st en)
       \<and> 0 < elapsed_minutes st en \<and> elapsed_minutes st en \<le> 24 * 60"
  using assms wellformed_strptime [of st] wellformed_strptime [of en]
    wellformed_validate [of st] wellformed_validate [of en]
    format_difference_wellformed [of st en] elapsed_minutes_bounds [of st en]
  by (simp add: calculate_duration_def calculate_duration_try_def
        calculate_instance_hours_def calculate_instance_hours_try_def)

text \<open>
  The rule at the times of the specification's scenarios: from 09:00 to 11:30 it gives
  02:30, from 23:00 to 01:00 it gives 02:00, and from 08:00 to 08:00 it gives 24:00, an
  hour field above 23.
\<close>

theorem duration_of_wellformed_times_witness:
  "wellformed_hhmm ''09:00'' \<and> wellformed_hhmm ''11:30'' \<and> wellformed_hhmm ''23:00''
   \<and> wellformed_hhmm ''01:00'' \<and> wellformed_hhmm ''08:00''
   \<and> snd (calculate_duration
        \<lparr>title = ''Reading'', description = ''Review'', start_time = ''09:00'',
         end_time = ''11:30'', images = [], stored_duration = []\<rparr>) = ''02:30''
   \<and> snd (calculate_duration
        \<lparr>title = ''Reading'', description = ''Review'', start_time = ''23:00'',
         end_time = ''01:00'', images = [], stored_duration = []\<rparr>) = ''02:00''
   \<and> snd (calculate_instance_hours
        \<lparr>responsible = ''Dr. Smith'', student = ''John Doe'',
         date = Some \<lparr>year = 2024, month = 5, day = 17\<rparr>, entry_time = ''23:00'',
         exit_time = ''01:00'', activities = [], stored_instance_hours = []\<rparr>) = ''02:00''
   \<and> snd (calculate_instance_hours
        \<lparr>responsible = ''Dr. Smith'', student = ''John Doe'',
         date = Some \<lparr>year = 2024, month = 5, day = 17\<rparr>, entry_time = ''08:00'',
         exit_time = ''08:00'', activities = [], stored_instance_hours = []\<rparr>) = ''24:00''"
proof -
  have w: "wellformed_hhmm ''09:00''" "wellformed_hhmm ''11:30''" "wellformed_hhmm ''23:00''"
    "wellformed_hhmm ''01:00''" "wellformed_hhmm ''08:00''"
    by code_simp+
  have e: "elapsed_hhmm ''09:00'' ''11:30'' = ''02:30''"
    "elapsed_hhmm ''23:00'' ''01:00'' = ''02:00''"
    "elapsed_hhmm ''08:00'' ''08:00'' = ''24:00''"
    by code_simp+
  show ?thesis
    using w e
      duration_of_wellformed_times [OF w(1) w(2), of
        "\<lparr>title = ''Reading'', description = ''Review'', start_time = ''09:00'',
          end_time = ''11:30'', images = [], stored_duration = []\<rparr>"
        "\<lparr>responsible = ''Dr. Smith'', student = ''John Doe'',
          date = Some \<lparr>year = 2024, month = 5, day = 17\<rparr>, entry_time = ''09:00'',
          exit_time = ''11:30'', activities = [], stored_instance_hours = []\<rparr>"]
      duration_of_wellformed_times [OF w(3) w(4), of
        "\<lparr>title = ''Reading'', description = ''Review'', start_time = ''23:00'',
          end_time = ''01:00'', images = [], stored_duration = []\<rparr>"
        "\<lparr>responsible = ''Dr. Smith'', student = ''John Doe'',
          date = Some \<lparr>year = 2024, month = 5, day = 17\<rparr>, entry_time = ''23:00'',
          exit_time = ''01:00'', activities = [], stored_instance_hours = []\<rparr>"]
      duration_of_wellformed_times [OF w(5) w(5), of
        "\<lparr>title = ''Reading'', description = ''Review'', start_time = ''08:00'',
          end_time = ''08:00'', images = [], stored_duration = []\<rparr>"
        "\<lparr>responsible = ''Dr. Smith'', student = ''John Doe'',
          date = Some \<lparr>year = 2024, month = 5, day = 17\<rparr>, entry_time = ''08:00'',
          exit_time = ''08:00'', activities = [], stored_instance_hours = []\<rparr>"]
    by simp
qed

section \<open>Unparseable times\<close>

lemma validate_format_hour_iff: "validate_format_hour s \<longleftrightarrow> \<not> isl (strptime_HM s)"
proof (cases s)
  case Nil
  then show ?thesis
    by (simp add: validate_format_hour_def strptime_HM_def re_match_HM_def directive_H_def
        alt1_def alt2_def)
next
  case (Cons c r)
  then show ?thesis by (cases "strptime_HM s") (simp_all add: validate_format_hour_def)
qed

text \<open>The handlers of the two minute extractions catch \<^verbatim>\<open>ValueError\<close>, and the bodies
  raise nothing else.\<close>

lemma int_body_error: "int_body b = Inl e \<Longrightarrow> e = ValueError"
  by (auto simp: int_body_def Let_def split: if_splits)

lemma py_int_error: "py_int s = Inl e \<Longrightarrow> e = ValueError"
  by (cases "int_strip s")
     (auto simp: py_int_def map_sum_def split: if_splits sum.splits dest: int_body_error)

lemma split_int_pair_error: "split_int_pair s = Inl e \<Longrightarrow> e = ValueError"
  by (auto simp: split_int_pair_def split: list.splits sum.splits dest: py_int_error)

lemma get_duration_in_minutes_try_error:
  "get_duration_in_minutes_try a = (a1, Inl e) \<Longrightarrow> e = ValueError"
  by (auto simp: get_duration_in_minutes_try_def Let_def map_sum_def
           split: if_splits sum.splits dest: split_int_pair_error)

lemma get_instance_hours_in_minutes_try_error:
  "get_instance_hours_in_minutes_try r = (r1, Inl e) \<Longrightarrow> e = ValueError"
  by (auto simp: get_instance_hours_in_minutes_try_def Let_def map_sum_def
           split: if_splits sum.splits dest: split_int_pair_error)

lemma calculate_duration_unparseable:
  assumes "isl (strptime_HM (start_time a)) \<or> isl (strptime_HM (end_time a))"
  shows "calculate_duration_try a
           = Inr (a\<lparr>stored_duration := duration_sentinel a\<rparr>, duration_sentinel a)"
  using assms
  by (auto simp: calculate_duration_try_def duration_sentinel_def validate_format_hour_iff)

lemma calculate_instance_hours_unparseable:
  assumes "isl (strptime_HM (entry_time r)) \<or> isl (strptime_HM (exit_time r))"
  shows "calculate_instance_hours_try r
           = Inr (r\<lparr>stored_instance_hours := instance_hours_sentinel r\<rparr>, instance_hours_sentinel r)"
  using assms
  by (auto simp: calculate_instance_hours_try_def instance_hours_sentinel_def
        validate_format_hour_iff)

text \<open>
  Claim C2. When the start or the end time of an activity does not parse,
  \<^verbatim>\<open>calculate_duration\<close> raises nothing (the body of its \<^verbatim>\<open>try\<close> returns), stores the
  sentinel and returns it; \<^verbatim>\<open>get_duration_in_minutes\<close> on the activity with the stored
  sentinel raises nothing and returns 0. The same holds for a report, its entry and exit
  times, \<^verbatim>\<open>calculate_instance_hours\<close> and \<^verbatim>\<open>get_instance_hours_in_minutes\<close>.
\<close>

theorem unparseable_time_gives_sentinel:
  assumes "isl (strptime_HM (start_time a)) \<or> isl (strptime_HM (end_time a))"
    and "isl (strptime_HM (entry_time r)) \<or> isl (strptime_HM (exit_time r))"
  shows "calculate_duration_try a
           = Inr (a\<lparr>stored_duration := duration_sentinel a\<rparr>, duration_sentinel a)
       \<and> calculate_duration a = (a\<lparr>stored_duration := duration_sentinel a\<rparr>, duration_sentinel a)
       \<and> get_duration_in_minutes_try (a\<lparr>stored_duration := duration_sentinel a\<rparr>)
           = (a\<lparr>stored_duration := duration_sentinel a\<rparr>, Inr 0)
       \<and> get_duration_in_minutes (a\<lparr>stored_duration := duration_sentinel a\<rparr>)
           = (a\<lparr>stored_duration := duration_sentinel a\<rparr>, 0)
       \<and> calculate_instance_hours_try r
           = Inr (r\<lparr>stored_instance_hours := instance_hours_sentinel r\<rparr>, instance_hours_sentinel r)
       \<and> calculate_instance_hours r
           = (r\<lparr>stored_instance_hours := instance_hours_sentinel r\<rparr>, instance_hours_sentinel r)
       \<and> get_instance_hours_in_minutes_try (r\<lparr>stored_instance_hours := instance_hours_sentinel r\<rparr>)
           = (r\<lparr>stored_instance_hours := instance_hours_sentinel r\<rparr>, Inr 0)
       \<and> get_instance_hours_in_minutes (r\<lparr>stored_instance_hours := instance_hours_sentinel r\<rparr>)
           = (r\<lparr>stored_instance_hours := instance_hours_sentinel r\<rparr>, 0)"
proof -
  let ?a = "a\<lparr>stored_duration := duration_sentinel a\<rparr>"
  let ?r = "r\<lparr>stored_instance_hours := instance_hours_sentinel r\<rparr>"
  have a1: "calculate_duration_try a = Inr (?a, duration_sentinel a)"
    using assms(1) by (rule calculate_duration_unparseable)
  have sa: "duration_sentinel ?a = duration_sentinel a" by (simp add: duration_sentinel_def)
  have a2: "calculate_duration_try ?a = Inr (?a, duration_sentinel a)"
    using calculate_duration_unparseable [of ?a] assms(1) sa by simp
  have ca: "CHR '':'' \<notin> set (duration_sentinel a)" by (simp add: duration_sentinel_def)
  have r1: "calculate_instance_hours_try r = Inr (?r, instance_hours_sentinel r)"
    using assms(2) by (rule calculate_instance_hours_unparseable)
  have sr: "instance_hours_sentinel ?r = instance_hours_sentinel r"
    by (simp add: instance_hours_sentinel_def)
  have r2: "calculate_instance_hours_try ?r = Inr (?r, instance_hours_sentinel r)"
    using calculate_instance_hours_unparseable [of ?r] assms(2) sr by simp
  have cr: "CHR '':'' \<notin> set (instance_hours_sentinel r)"
    by (simp add: instance_hours_sentinel_def)
  show ?thesis
    using a1 a2 ca r1 r2 cr
    by (simp add: calculate_duration_def calculate_instance_hours_def
        get_duration_in_minutes_def get_duration_in_minutes_try_def
        get_instance_hours_in_minutes_def get_instance_hours_in_minutes_try_def Let_def)
qed

text \<open>An activity that starts at \<open>9 am\<close> and a report that ends at \<open>25:00\<close>.\<close>

theorem unparseable_time_gives_sentinel_witness:
  "isl (strptime_HM ''9 am'') \<and> isl (strptime_HM ''25:00'')
   \<and> calculate_duration (example_activity\<lparr>start_time := ''9 am''\<rparr>)
       = (example_activity\<lparr>start_time := ''9 am'', stored_duration := ''Invalid start time''\<rparr>,
          ''Invalid start time'')
   \<and> snd (get_duration_in_minutes
            (example_activity\<lparr>start_time := ''9 am'', stored_duration := ''Invalid start time''\<rparr>)) = 0
   \<and> calculate_instance_hours (example_report\<lparr>exit_time := ''25:00''\<rparr>)
       = (example_report\<lparr>exit_time := ''25:00'', stored_instance_hours := ''Invalid exit time''\<rparr>,
          ''Invalid exit time'')
   \<and> snd (get_instance_hours_in_minutes
            (example_report\<lparr>exit_time := ''25:00'', stored_instance_hours := ''Invalid exit time''\<rparr>)) = 0"
proof -
  have p: "isl (strptime_HM ''9 am'')" "isl (strptime_HM ''25:00'')" "\<not> isl (strptime_HM ''08:00'')"
    by code_simp+
  have t: "start_time (example_activity\<lparr>start_time := ''9 am''\<rparr>) = ''9 am''"
    "entry_time (example_report\<lparr>exit_time := ''25:00''\<rparr>) = ''08:00''"
    "exit_time (example_report\<lparr>exit_time := ''25:00''\<rparr>) = ''25:00''"
    by code_simp+
  show ?thesis
    using p unparseable_time_gives_sentinel [of "example_activity\<lparr>start_time := ''9 am''\<rparr>"
        "example_report\<lparr>exit_time := ''25:00''\<rparr>"]
    by (simp add: t duration_sentinel_def instance_hours_sentinel_def)
qed

section \<open>Stored durations\<close>

text \<open>The property \<^verbatim>\<open>duration\<close> returns what is stored whenever something is stored,
  whatever the times are now; so does \<^verbatim>\<open>instance_hours\<close>.\<close>

lemma duration_returns_stored:
  "stored_duration a \<noteq> [] \<Longrightarrow> duration (a\<lparr>start_time := st, end_time := en\<rparr>)
     = (a\<lparr>start_time := st, end_time := en\<rparr>, stored_duration a)"
  by (simp add: duration_def)

lemma instance_hours_returns_stored:
  "stored_instance_hours r \<noteq> [] \<Longrightarrow> instance_hours (r\<lparr>entry_time := st, exit_time := en\<rparr>)
     = (r\<lparr>entry_time := st, exit_time := en\<rparr>, stored_instance_hours r)"
  by (simp add: instance_hours_def)

text \<open>
  Claim C3, at an input where the code departs from it. The activity constructed with
  the times 09:00 and 11:30 has the duration 02:30 stored. After the assignment of 10:00
  to \<^verbatim>\<open>start_time\<close> the property \<^verbatim>\<open>duration\<close> still reads 02:30, while the value
  calculated from the times is 01:30. The report constructed with 08:00 and 17:00 reads
  09:00 as \<^verbatim>\<open>instance_hours\<close> after the assignment of 18:30 to \<^verbatim>\<open>exit_time\<close>, while
  the value calculated from the times is 10:30.
\<close>

theorem duration_stale_after_assignment:
  "stored_duration example_activity = ''02:30''
   \<and> snd (duration (example_activity\<lparr>start_time := ''10:00''\<rparr>)) = ''02:30''
   \<and> snd (calculate_duration (example_activity\<lparr>start_time := ''10:00''\<rparr>)) = ''01:30''
   \<and> snd (instance_hours (example_report\<lparr>exit_time := ''18:30''\<rparr>)) = ''09:00''
   \<and> snd (calculate_instance_hours (example_report\<lparr>exit_time := ''18:30''\<rparr>)) = ''10:30''"
proof -
  have stored: "stored_duration example_activity = ''02:30''"
    "stored_instance_hours example_report = ''09:00''"
    by code_simp+
  have read: "snd (duration (example_activity\<lparr>start_time := ''10:00''\<rparr>)) = ''02:30''"
    "snd (instance_hours (example_report\<lparr>exit_time := ''18:30''\<rparr>)) = ''09:00''"
    using stored by (simp_all add: duration_def instance_hours_def)
  have recomputed:
    "snd (calculate_duration (example_activity\<lparr>start_time := ''10:00''\<rparr>)) = ''01:30''"
    "snd (calculate_instance_hours (example_report\<lparr>exit_time := ''18:30''\<rparr>)) = ''10:30''"
    by code_simp+
  from stored read recomputed show ?thesis by simp
qed

section \<open>Validation of images\<close>

text \<open>\<^verbatim>\<open>Activity.complete_validate\<close> does not depend on the sizes of the files.\<close>

lemma validate_images_from_ignores_size:
  "validate_images_from (\<lambda>p. map_option f (fs p)) i paths = validate_images_from fs i paths"
  by (induction paths arbitrary: i) simp_all

lemma validate_images_ignores_size:
  "validate_images (\<lambda>p. map_option f (fs p)) a = validate_images fs a"
  by (simp add: validate_images_def validate_images_from_ignores_size)

lemma complete_validate_ignores_size:
  "Activity_complete_validate (\<lambda>p. map_option f (fs p)) a = Activity_complete_validate fs a"
  by (simp only: Activity_complete_validate_def validate_images_ignores_size)

text \<open>What the validation does check: at most five images, each of them existing and
  with an allowed extension; the first image that fails is named by its position,
  counted from 1.\<close>

lemma validate_images_from_iff:
  "fst (validate_images_from fs i paths) \<longleftrightarrow> list_all (image_ok fs) paths"
  by (induction paths arbitrary: i) (simp_all add: image_ok_def)

lemma complete_validate_images:
  "fst (Activity_complete_validate fs a) \<Longrightarrow>
     length (images a) \<le> 5 \<and> list_all (image_ok fs) (images a)"
proof -
  assume "fst (Activity_complete_validate fs a)"
  then have "fst (validate_images fs a)"
    by (auto simp: Activity_complete_validate_def split: prod.splits bool.splits)
  then show ?thesis
    using validate_images_from_iff [of fs 0 "images a"]
    by (auto simp: validate_images_def MAX_IMAGES_def split: if_splits)
qed

lemma first_failing_image_named:
  assumes "list_all (image_ok fs) good" and "\<not> image_ok fs bad"
  shows "validate_images_from fs i (good @ bad # rest) =
           (False, ''Image '' @ py_str (int (i + length good) + 1) @
              (if fs bad = None then '' not found: '' @ bad else '' with invalid format''))"
  using assms
  by (induction good arbitrary: i) (auto simp: image_ok_def)

text \<open>
  Claim C4, at an input where the code departs from it: an activity whose only image is
  an existing \<open>.png\<close> file of 11 MB, above the limit of 10 MB, passes
  \<^verbatim>\<open>Activity.complete_validate\<close>.
\<close>

theorem oversized_image_passes_validation:
  "big_image_fs ''/photos/big.png'' = Some 11534336
   \<and> MAX_SIZE_IMAGE_MB * 1024 * 1024 < 11534336
   \<and> Activity_complete_validate big_image_fs (example_activity\<lparr>images := [''/photos/big.png'']\<rparr>)
       = (True, ''Valid activity'')"
proof -
  have f: "big_image_fs ''/photos/big.png'' = Some 11534336"
    by (simp add: big_image_fs_def)
  have m: "MAX_SIZE_IMAGE_MB * 1024 * 1024 < 11534336"
    by (simp add: MAX_SIZE_IMAGE_MB_def)
  have r: "Activity_validate_required_fields (example_activity\<lparr>images := [''/photos/big.png'']\<rparr>)
             = (True, ''All fields complete'')"
    by code_simp
  have h: "Activity_validate_hours (example_activity\<lparr>images := [''/photos/big.png'']\<rparr>)
             = (True, ''Valid hours'')"
    by code_simp
  have x: "py_lower (snd (splitext ''/photos/big.png'')) = ''.png''"
    by code_simp
  have i: "validate_images big_image_fs (example_activity\<lparr>images := [''/photos/big.png'']\<rparr>)
             = (True, ''Valid images'')"
    by (simp add: validate_images_def MAX_IMAGES_def f x FORMATS_ALLOW_IMAGE_def)
  have c: "Activity_complete_validate big_image_fs
             (example_activity\<lparr>images := [''/photos/big.png'']\<rparr>) = (True, ''Valid activity'')"
    by (simp add: Activity_complete_validate_def r h i)
  from f m c show ?thesis by blast
qed

section \<open>Negative indices\<close>

text \<open>
  Claim C10. With a negative index, \<^verbatim>\<open>Activity.delete_image\<close>,
  \<^verbatim>\<open>Report.remove_activity\<close>, \<^verbatim>\<open>Report.edit_activity\<close> and \<^verbatim>\<open>Report.move_activity\<close>
  (as source or as destination) fail and leave the activity or the report unchanged.
\<close>

theorem negative_index_rejected:
  assumes "index < 0"
  shows "delete_image a index = (a, False, ''Invalid index'')
       \<and> remove_activity r index = (r, False, ''Invalid index'')
       \<and> edit_activity fs r index updated_activity = (r, False, ''Invalid index'')
       \<and> move_activity r index to_index = (r, False, ''Invalid source index'')
       \<and> fst (move_activity r from_index index) = r
       \<and> \<not> fst (snd (move_activity r from_index index))"
  using assms
  by (simp add: delete_image_def remove_activity_def edit_activity_def move_activity_def)

text \<open>The index \<open>-1\<close> on an activity with two images and a report with two activities.\<close>

theorem negative_index_rejected_witness:
  "(- 1 :: int) < 0
   \<and> images (fst (delete_image (example_activity\<lparr>images := [''a.png'', ''b.png'']\<rparr>) (- 1)))
       = [''a.png'', ''b.png'']
   \<and> \<not> fst (snd (delete_image (example_activity\<lparr>images := [''a.png'', ''b.png'']\<rparr>) (- 1)))
   \<and> remove_activity (example_report\<lparr>activities := [example_activity, example_activity]\<rparr>) (- 1)
       = (example_report\<lparr>activities := [example_activity, example_activity]\<rparr>, False, ''Invalid index'')
   \<and> edit_activity big_image_fs (example_report\<lparr>activities := [example_activity, example_activity]\<rparr>)
         (- 1) example_activity
       = (example_report\<lparr>activities := [example_activity, example_activity]\<rparr>, False, ''Invalid index'')
   \<and> move_activity (example_report\<lparr>activities := [example_activity, example_activity]\<rparr>) (- 1) 0
       = (example_report\<lparr>activities := [example_activity, example_activity]\<rparr>, False,
          ''Invalid source index'')
   \<and> fst (move_activity (example_report\<lparr>activities := [example_activity, example_activity]\<rparr>) 0 (- 1))
       = example_report\<lparr>activities := [example_activity, example_activity]\<rparr>"
  using negative_index_rejected [of "- 1" "example_activity\<lparr>images := [''a.png'', ''b.png'']\<rparr>"
      "example_report\<lparr>activities := [example_activity, example_activity]\<rparr>"
      big_image_fs example_activity 0 0]
  by simp


section \<open>Reordering of images\<close>

lemma index_all_in_range:
  "\<forall>i \<in> set xs. 0 \<le> i \<and> i < int (length imgs) \<Longrightarrow>
     index_all imgs xs = Inr (map (\<lambda>i. imgs ! nat i) xs)"
  by (induction xs) (simp_all add: py_index_def)

lemma permutation_iff:
  "length xs = n \<and> set xs = set (map int [0 ..< n]) \<longleftrightarrow> mset xs = mset (map int [0 ..< n])"
proof
  assume a: "length xs = n \<and> set xs = set (map int [0 ..< n])"
  have d: "distinct (map int [0 ..< n])" by (simp add: distinct_map)
  then have "card (set (map int [0 ..< n])) = n"
    using distinct_card [OF d] by simp
  with a have "card (set xs) = length xs" by simp
  then have "distinct xs" by (rule card_distinct)
  with a d show "mset xs = mset (map int [0 ..< n])"
    using set_eq_iff_mset_eq_distinct by blast
next
  assume m: "mset xs = mset (map int [0 ..< n])"
  then have "length xs = length (map int [0 ..< n])" by (rule mset_eq_length)
  moreover have "set xs = set (map int [0 ..< n])" using m by (rule mset_eq_setD)
  ultimately show "length xs = n \<and> set xs = set (map int [0 ..< n])" by simp
qed

text \<open>
  Claim C7. \<^verbatim>\<open>Activity.reorganize_images\<close> succeeds exactly when the new order is a
  permutation of the indices \<open>0, ..., N - 1\<close> of the images; then the image at each
  position of the new list is the old image at the index given for that position; on
  failure the activity is unchanged.
\<close>

theorem reorganize_images_permutation:
  "(fst (snd (reorganize_images a new_order))
      \<longleftrightarrow> mset new_order = mset (map int [0 ..< length (images a)]))
   \<and> (fst (snd (reorganize_images a new_order)) \<longrightarrow>
        fst (reorganize_images a new_order) = a\<lparr>images := map (\<lambda>i. images a ! nat i) new_order\<rparr>)
   \<and> (\<not> fst (snd (reorganize_images a new_order)) \<longrightarrow> fst (reorganize_images a new_order) = a)"
proof (cases "length new_order = length (images a) \<and> set new_order = set (map int [0 ..< length (images a)])")
  case True
  then have "\<forall>i \<in> set new_order. 0 \<le> i \<and> i < int (length (images a))" by auto
  then have i: "index_all (images a) new_order = Inr (map (\<lambda>i. images a ! nat i) new_order)"
    by (rule index_all_in_range)
  have m: "mset new_order = mset (map int [0 ..< length (images a)])"
    using True permutation_iff [of new_order "length (images a)"] by blast
  show ?thesis using True i m by (simp add: reorganize_images_def)
next
  case False
  then have m: "mset new_order \<noteq> mset (map int [0 ..< length (images a)])"
    using permutation_iff [of new_order "length (images a)"] by blast
  show ?thesis using False m by (auto simp: reorganize_images_def)
qed


text \<open>Three images with the orders \<open>2, 0, 1\<close> (a permutation) and \<open>2, 0, 0\<close> (an index
  repeated and one left out).\<close>

theorem reorganize_images_permutation_witness:
  "mset [2, 0, 1] = mset (map int [0 ..< length (images three_images)])
   \<and> fst (snd (reorganize_images three_images [2, 0, 1]))
   \<and> images (fst (reorganize_images three_images [2, 0, 1])) = [''c.png'', ''a.png'', ''b.png'']
   \<and> mset [2, 0, 0] \<noteq> mset (map int [0 ..< length (images three_images)])
   \<and> \<not> fst (snd (reorganize_images three_images [2, 0, 0]))
   \<and> fst (reorganize_images three_images [2, 0, 0]) = three_images"
proof -
  have i: "images three_images = [''a.png'', ''b.png'', ''c.png'']"
    by (simp add: three_images_def)
  have u: "map int [0 ..< length (images three_images)] = [0, 1, 2]"
    by (simp add: i upt_rec)
  have p: "mset [2, 0, 1] = mset (map int [0 ..< length (images three_images)])"
    unfolding u by simp
  have q: "mset [2, 0, 0] \<noteq> mset (map int [0 ..< length (images three_images)])"
  proof
    assume "mset [2, 0, 0] = mset (map int [0 ..< length (images three_images)])"
    then have "set [2, 0, 0] = set (map int [0 ..< length (images three_images)])"
      by (rule mset_eq_setD)
    then have "(1::int) \<in> set [2, 0, 0]" unfolding u by simp
    then show False by simp
  qed
  show ?thesis
    using p q reorganize_images_permutation [of three_images "[2, 0, 1]"]
      reorganize_images_permutation [of three_images "[2, 0, 0]"]
    by (simp add: i)
qed

section \<open>Loading a report\<close>

lemma calculate_duration_fields:
  "fst (calculate_duration a) = a\<lparr>stored_duration := snd (calculate_duration a)\<rparr>"
  by (simp add: calculate_duration_def calculate_duration_try_def split: sum.splits)

lemma calculate_instance_hours_fields:
  "fst (calculate_instance_hours r) = r\<lparr>stored_instance_hours := snd (calculate_instance_hours r)\<rparr>"
  by (simp add: calculate_instance_hours_def calculate_instance_hours_try_def split: sum.splits)

lemma Activity_init_fields:
  "title (Activity_init t d st en imgs) = t"
  "description (Activity_init t d st en imgs) = d"
  "start_time (Activity_init t d st en imgs) = st"
  "end_time (Activity_init t d st en imgs) = en"
  "images (Activity_init t d st en imgs) = (case imgs of None \<Rightarrow> [] | Some xs \<Rightarrow> xs)"
  by (simp_all add: Activity_init_def Let_def calculate_duration_fields)

lemma Report_init_fields:
  "responsible (Report_init today resp stud rd en ex acts) = resp"
  "student (Report_init today resp stud rd en ex acts) = stud"
  "date (Report_init today resp stud rd en ex acts) = Some (case rd of None \<Rightarrow> today | Some d \<Rightarrow> d)"
  "entry_time (Report_init today resp stud rd en ex acts) = en"
  "exit_time (Report_init today resp stud rd en ex acts) = ex"
  "activities (Report_init today resp stud rd en ex acts) = (case acts of None \<Rightarrow> [] | Some xs \<Rightarrow> xs)"
  by (simp_all add: Report_init_def Let_def calculate_instance_hours_fields)

lemma date_fromisoformat_error: "date_fromisoformat s = Inl e \<Longrightarrow> e = ValueError"
  by (auto simp: date_fromisoformat_def split: if_splits option.splits)

text \<open>
  Claim C8, at an input where the code departs from it: a document whose \<^verbatim>\<open>date\<close> is
  the number 20240101. The value is true in the condition, \<^verbatim>\<open>date.fromisoformat\<close> raises
  \<^verbatim>\<open>TypeError\<close>, the handler for \<^verbatim>\<open>ValueError\<close> does not catch it, and
  \<^verbatim>\<open>Report.from_dict\<close> fails instead of taking today's date.
\<close>

theorem numeric_date_fails_load:
  "truthy (JNumber 20240101)
   \<and> parse_date_entry today (date_key numeric_date_document) = Inl TypeError
   \<and> Report_from_dict today numeric_date_document = Inl TypeError"
  by (simp add: Report_from_dict_def parse_date_entry_def numeric_date_document_def)

text \<open>With no date, or with any string as the date, the load succeeds, today's date
  stands in for an empty or unreadable date, and a missing list of activities is empty.\<close>

lemma from_dict_string_date:
  assumes "date_key data = None \<or> date_key data = Some (JString s)"
  shows "\<exists>r. Report_from_dict today data = Inr r
           \<and> date r = Some (if date_key data = None \<or> s = [] then today
                             else case date_fromisoformat s of Inr d \<Rightarrow> d | Inl _ \<Rightarrow> today)
           \<and> (activities_key data = None \<longrightarrow> activities r = [])"
  using assms
  by (auto simp: Report_from_dict_def parse_date_entry_def Report_init_fields Let_def
      split: sum.splits py_error.splits option.splits dest: date_fromisoformat_error)

lemma not_a_date: "date_fromisoformat ''not-a-date'' = Inl ValueError"
  by code_simp

text \<open>The other spellings of a date that \<^verbatim>\<open>date.fromisoformat\<close> reads from Python 3.11
  on are loaded as the dates that they name.\<close>

lemma basic_and_week_dates:
  "date_fromisoformat ''20240517'' = Inr \<lparr>year = 2024, month = 5, day = 17\<rparr>"
  "date_fromisoformat ''2024-W20-5'' = Inr \<lparr>year = 2024, month = 5, day = 17\<rparr>"
  "date_fromisoformat ''2024W20'' = Inr \<lparr>year = 2024, month = 5, day = 13\<rparr>"
  "date_fromisoformat ''2021-W53-1'' = Inl ValueError"
  by code_simp+


section \<open>Round trip through the dictionary\<close>

lemma is_digit_digit_char: "k < 10 \<Longrightarrow> is_digit (digit_char k)"
  by (simp add: is_digit_def in_range_def digit_char_def)

lemma digit_val_digit_char: "k < 10 \<Longrightarrow> digit_val (digit_char k) = k"
  by (simp add: digit_val_def digit_char_def)

lemma digits_of_all_digits: "list_all is_digit (digits_of n)"
proof (induction n rule: digits_of.induct)
  case (1 n)
  then show ?case
    by (subst digits_of.simps) (simp add: is_digit_digit_char)
qed

lemma digits_val_snoc: "digits_val (xs @ [c]) = 10 * digits_val xs + digit_val c"
  by (simp add: digits_val_def)

lemma digits_val_digits_of: "digits_val (digits_of n) = n"
proof (induction n rule: digits_of.induct)
  case (1 n)
  show ?case
  proof (cases "n < 10")
    case True
    then show ?thesis
      by (subst digits_of.simps) (simp add: digits_val_def digit_val_digit_char)
  next
    case False
    with 1 show ?thesis
      by (subst digits_of.simps) (simp add: digits_val_snoc digit_val_digit_char)
  qed
qed

lemma length_digits_of: "0 < k \<Longrightarrow> n < 10 ^ k \<Longrightarrow> length (digits_of n) \<le> k"
proof (induction k arbitrary: n)
  case 0
  then show ?case by simp
next
  case (Suc k)
  show ?case
  proof (cases "n < 10")
    case True
    then show ?thesis by (subst digits_of.simps) simp
  next
    case False
    then have k: "0 < k" using Suc.prems by (cases k) auto
    have "n div 10 < 10 ^ k" using Suc.prems by (simp add: less_mult_imp_div_less mult.commute)
    then have "length (digits_of (n div 10)) \<le> k" using Suc.IH k by blast
    with False show ?thesis by (subst digits_of.simps) simp
  qed
qed

lemma digits_val_zeros: "digits_val (replicate k (CHR ''0'') @ ds) = digits_val ds"
proof -
  have "foldl (\<lambda>acc c. 10 * acc + digit_val c) 0 (replicate k (CHR ''0'')) = 0"
    by (induction k) (simp_all add: digit_val_def)
  then show ?thesis by (simp add: digits_val_def)
qed

lemma is_digit_zero: "is_digit (CHR ''0'')"
  by (simp add: is_digit_def in_range_def)

lemma zero_pad_props:
  assumes "0 \<le> n" and "0 < w" and "nat n < 10 ^ w"
  shows "length (zero_pad w n) = w"
    and "list_all is_digit (zero_pad w n)"
    and "int (digits_val (zero_pad w n)) = n"
proof -
  have l: "length (digits_of (nat n)) \<le> w" using assms by (simp add: length_digits_of)
  show "length (zero_pad w n) = w" using assms l by (simp add: zero_pad_def)
  show "list_all is_digit (zero_pad w n)"
    using assms digits_of_all_digits [of "nat n"]
    by (auto simp: zero_pad_def list_all_iff is_digit_zero)
  show "int (digits_val (zero_pad w n)) = n"
    using assms by (simp add: zero_pad_def digits_val_zeros digits_val_digits_of)
qed

lemma utf8_length_append: "utf8_length (a @ b) = utf8_length a + utf8_length b"
  by (simp add: utf8_length_def)

lemma utf8_length_digits: "list_all is_digit s \<Longrightarrow> utf8_length s = length s"
  by (induction s) (auto simp: utf8_length_def is_digit_def in_range_def)

lemma parse_digits_prefix:
  "length A = n \<Longrightarrow> list_all is_digit A \<Longrightarrow> parse_digits n (A @ r) = Some (int (digits_val A), r)"
  by (simp add: parse_digits_def)

lemma digit_not_week_sign: "is_digit c \<Longrightarrow> c \<noteq> CHR ''W''"
  by (auto simp: is_digit_def in_range_def)

text \<open>The spelling that \<^verbatim>\<open>isoformat\<close> writes is read back along the branch of the
  calendar dates with separators.\<close>

lemma parse_isoformat_date_iso:
  assumes "length Y = 4" "list_all is_digit Y" "length M = 2" "list_all is_digit M"
    and "length D = 2" "list_all is_digit D"
  shows "parse_isoformat_date (Y @ CHR ''-'' # M @ CHR ''-'' # D)
           = Some \<lparr>year = int (digits_val Y), month = int (digits_val M), day = int (digits_val D)\<rparr>"
proof -
  obtain m1 m2 where M: "M = [m1, m2]"
    using assms(3) by (auto simp: length_Suc_conv eval_nat_numeral)
  have w: "m1 \<noteq> CHR ''W''" using assms(4) M digit_not_week_sign by simp
  have 1: "parse_digits 4 (Y @ CHR ''-'' # M @ CHR ''-'' # D)
             = Some (int (digits_val Y), CHR ''-'' # M @ CHR ''-'' # D)"
    using assms(1,2) by (rule parse_digits_prefix)
  have 2: "parse_digits 2 (M @ CHR ''-'' # D) = Some (int (digits_val M), CHR ''-'' # D)"
    using assms(3,4) by (rule parse_digits_prefix)
  have 3: "parse_digits 2 D = Some (int (digits_val D), [])"
    using parse_digits_prefix [OF assms(5,6), of "[]"] by simp
  have h: "hd (M @ CHR ''-'' # D) \<noteq> CHR ''W''" "M @ CHR ''-'' # D \<noteq> []"
    using w by (simp_all add: M)
  show ?thesis
    unfolding parse_isoformat_date_def 1
    by (simp add: Let_def h 2 3)
qed

lemma utf8_length_dash: "utf8_length (CHR ''-'' # s) = Suc (utf8_length s)"
  by (simp add: utf8_length_def)

lemma fromisoformat_isoformat:
  assumes "valid_date d"
  shows "date_fromisoformat (isoformat d) = Inr d"
proof -
  have y: "0 \<le> year d" "nat (year d) < 10 ^ 4" and m: "0 \<le> month d" "nat (month d) < 10 ^ 2"
    using assms by (auto simp: valid_date_def)
  have "day d \<le> 31" using assms by (simp add: valid_date_def days_in_month_def split: if_splits)
  then have dd: "0 \<le> day d" "nat (day d) < 10 ^ 2" using assms by (auto simp: valid_date_def)
  note Y = zero_pad_props [OF y(1) _ y(2), simplified]
  note M = zero_pad_props [OF m(1) _ m(2), simplified]
  note D = zero_pad_props [OF dd(1) _ dd(2), simplified]
  have i: "isoformat d = zero_pad 4 (year d) @ CHR ''-'' # zero_pad 2 (month d) @ CHR ''-'' # zero_pad 2 (day d)"
    by (simp add: isoformat_def)
  have l: "utf8_length (isoformat d) = 10"
    unfolding i
    by (simp add: utf8_length_append utf8_length_dash utf8_length_digits Y M D)
  have "\<lparr>year = year d, month = month d, day = day d\<rparr> = d" by simp
  then have "parse_isoformat_date (isoformat d) = Some d"
    unfolding i
    using parse_isoformat_date_iso [OF Y(1) Y(2) M(1) M(2) D(1) D(2)] by (simp add: Y M D)
  then show ?thesis
    using assms l by (simp add: date_fromisoformat_def)
qed


lemma duration_fields: "fst (duration a) = a\<lparr>stored_duration := snd (duration a)\<rparr>"
  by (simp add: duration_def Let_def calculate_duration_fields)

lemma instance_hours_fields:
  "fst (instance_hours r) = r\<lparr>stored_instance_hours := snd (instance_hours r)\<rparr>"
  by (simp add: instance_hours_def Let_def calculate_instance_hours_fields)

lemma Activity_round_trip: "saved_fields (Activity_from_dict (snd (Activity_to_dict a))) = saved_fields a"
proof -
  have "images (fst (duration a)) = images a"
    by (subst duration_fields) simp
  then show ?thesis
    by (simp add: saved_fields_def Activity_from_dict_def Activity_to_dict_def get_or_def
        Activity_init_fields case_prod_beta)
qed

lemma report_round_trip_fields:
  assumes "date r = Some d" and "valid_date d"
  shows "\<exists>r1 doc r'. Report_to_dict r = Inr (r1, doc) \<and> Report_from_dict today doc = Inr r'
           \<and> responsible r' = responsible r \<and> student r' = student r \<and> date r' = date r
           \<and> entry_time r' = entry_time r \<and> exit_time r' = exit_time r
           \<and> length (activities r') = length (activities r)
           \<and> map saved_fields (activities r') = map saved_fields (activities r)"
proof -
  have a: "activities (fst (instance_hours r)) = activities r"
    by (subst instance_hours_fields) simp
  have i: "isoformat d \<noteq> []" by (simp add: isoformat_def)
  have m: "map (saved_fields \<circ> (Activity_from_dict \<circ> (snd \<circ> Activity_to_dict))) (activities r) = map saved_fields (activities r)"
    by (simp add: Activity_round_trip)
  show ?thesis
    using fromisoformat_isoformat [OF assms(2)] assms(1) a i m
    by (simp add: Report_from_dict_def Report_to_dict_def parse_date_entry_def get_or_def
        Report_init_fields case_prod_beta)
qed


lemma map_eq_nth:
  "map f xs = map f ys \<Longrightarrow> i < length ys \<Longrightarrow> f (xs ! i) = f (ys ! i)"
  by (metis length_map nth_map)

text \<open>
  Claim C5. For every report \<open>r\<close> whose date is a \<^verbatim>\<open>date\<close> object \<open>d\<close> (a date of the
  calendar, as every \<^verbatim>\<open>date\<close> object is), \<^verbatim>\<open>r.to_dict()\<close> returns a dictionary and
  \<^verbatim>\<open>Report.from_dict\<close> of it returns a report with the responsible, student, date, entry
  time and exit time of \<open>r\<close>, and with as many activities, which have at each position the
  title, start time, end time and images of the activity of \<open>r\<close> at that position.
\<close>

theorem report_round_trip:
  assumes "date r = Some d" and "valid_date d"
  shows "\<exists>r1 doc r'. Report_to_dict r = Inr (r1, doc) \<and> Report_from_dict today doc = Inr r'
           \<and> responsible r' = responsible r \<and> student r' = student r \<and> date r' = date r
           \<and> entry_time r' = entry_time r \<and> exit_time r' = exit_time r
           \<and> length (activities r') = length (activities r)
           \<and> (\<forall>i < length (activities r).
                 title (activities r' ! i) = title (activities r ! i)
                 \<and> start_time (activities r' ! i) = start_time (activities r ! i)
                 \<and> end_time (activities r' ! i) = end_time (activities r ! i)
                 \<and> images (activities r' ! i) = images (activities r ! i))"
proof -
  from report_round_trip_fields [OF assms, of today] obtain r1 doc r' where
    r: "Report_to_dict r = Inr (r1, doc) \<and> Report_from_dict today doc = Inr r'
           \<and> responsible r' = responsible r \<and> student r' = student r \<and> date r' = date r
           \<and> entry_time r' = entry_time r \<and> exit_time r' = exit_time r
           \<and> length (activities r') = length (activities r)
           \<and> map saved_fields (activities r') = map saved_fields (activities r)"
    by (elim exE)
  then have m: "map saved_fields (activities r') = map saved_fields (activities r)" by simp
  have p: "\<forall>i < length (activities r).
                 title (activities r' ! i) = title (activities r ! i)
                 \<and> start_time (activities r' ! i) = start_time (activities r ! i)
                 \<and> end_time (activities r' ! i) = end_time (activities r ! i)
                 \<and> images (activities r' ! i) = images (activities r ! i)"
  proof (intro allI impI)
    fix i assume "i < length (activities r)"
    then have "saved_fields (activities r' ! i) = saved_fields (activities r ! i)"
      using m by (rule map_eq_nth [rotated])
    then show "title (activities r' ! i) = title (activities r ! i)
                 \<and> start_time (activities r' ! i) = start_time (activities r ! i)
                 \<and> end_time (activities r' ! i) = end_time (activities r ! i)
                 \<and> images (activities r' ! i) = images (activities r ! i)"
      by (simp add: saved_fields_def)
  qed
  show ?thesis
    apply (rule exI [of _ r1])
    apply (rule exI [of _ doc])
    apply (rule exI [of _ r'])
    using r p apply simp
    done
qed

text \<open>The round trip of a report with two activities, one of them with three images.\<close>

theorem report_round_trip_witness:
  "date report_with_images = Some \<lparr>year = 2024, month = 5, day = 17\<rparr>
   \<and> valid_date \<lparr>year = 2024, month = 5, day = 17\<rparr>
   \<and> (\<exists>r1 doc r'. Report_to_dict report_with_images = Inr (r1, doc)
         \<and> Report_from_dict \<lparr>year = 2026, month = 1, day = 2\<rparr> doc = Inr r'
         \<and> responsible r' = ''Dr. Smith'' \<and> student r' = ''John Doe''
         \<and> date r' = Some \<lparr>year = 2024, month = 5, day = 17\<rparr>
         \<and> entry_time r' = ''08:00'' \<and> exit_time r' = ''17:00''
         \<and> length (activities r') = 2
         \<and> title (activities r' ! 0) = ''Reading''
         \<and> start_time (activities r' ! 0) = ''09:00''
         \<and> end_time (activities r' ! 0) = ''11:30''
         \<and> images (activities r' ! 0) = [''a.png'', ''b.png'', ''c.png'']
         \<and> images (activities r' ! 1) = [])"
proof -
  let ?today = "\<lparr>year = 2026, month = 1, day = 2\<rparr>"
  let ?d = "\<lparr>year = 2024, month = 5, day = 17\<rparr>"
  have v: "valid_date ?d"
    by code_simp
  have f: "responsible report_with_images = ''Dr. Smith''"
    "student report_with_images = ''John Doe''"
    "date report_with_images = Some ?d"
    "entry_time report_with_images = ''08:00''" "exit_time report_with_images = ''17:00''"
    by code_simp+
  have a: "activities report_with_images = [three_images, example_activity]"
    by (simp add: report_with_images_def)
  have g: "title three_images = ''Reading''" "start_time three_images = ''09:00''"
    "end_time three_images = ''11:30''" "images three_images = [''a.png'', ''b.png'', ''c.png'']"
    "images example_activity = []"
    by code_simp+
  from report_round_trip [OF f(3) v, of ?today] obtain r1 doc r' where
    r: "Report_to_dict report_with_images = Inr (r1, doc)
           \<and> Report_from_dict ?today doc = Inr r'
           \<and> responsible r' = responsible report_with_images
           \<and> student r' = student report_with_images \<and> date r' = date report_with_images
           \<and> entry_time r' = entry_time report_with_images
           \<and> exit_time r' = exit_time report_with_images
           \<and> length (activities r') = length (activities report_with_images)
           \<and> (\<forall>i < length (activities report_with_images).
                 title (activities r' ! i) = title (activities report_with_images ! i)
                 \<and> start_time (activities r' ! i) = start_time (activities report_with_images ! i)
                 \<and> end_time (activities r' ! i) = end_time (activities report_with_images ! i)
                 \<and> images (activities r' ! i) = images (activities report_with_images ! i))"
    by (elim exE)
  then have p: "\<forall>i < length (activities report_with_images).
                 title (activities r' ! i) = title (activities report_with_images ! i)
                 \<and> start_time (activities r' ! i) = start_time (activities report_with_images ! i)
                 \<and> end_time (activities r' ! i) = end_time (activities report_with_images ! i)
                 \<and> images (activities r' ! i) = images (activities report_with_images ! i)"
    by simp
  have p0: "title (activities r' ! 0) = ''Reading''" "start_time (activities r' ! 0) = ''09:00''"
    "end_time (activities r' ! 0) = ''11:30''" "images (activities r' ! 0) = [''a.png'', ''b.png'', ''c.png'']"
    using p [rule_format, of 0] by (simp_all add: a g)
  have p1: "images (activities r' ! 1) = []"
    using p [rule_format, of 1] by (simp add: a g)
  show ?thesis
    apply (rule conjI [OF f(3)])
    apply (rule conjI [OF v])
    apply (rule exI [of _ r1])
    apply (rule exI [of _ doc])
    apply (rule exI [of _ r'])
    using r p0 p1 apply (simp add: f a)
    done
qed

section \<open>Validation of a report\<close>

lemma colon_code: "(c = CHR '':'') = ((of_char c :: nat) = 58)"
  using char_code_eq [of c "CHR '':''"] by simp

lemma two_code: "(c = CHR ''2'') = ((of_char c :: nat) = 50)"
  using char_code_eq [of c "CHR ''2''"] by simp

lemma py_split_nonempty: "py_split c s \<noteq> []"
  by (induction s) (auto split: list.splits)

lemma py_split_single: "py_split c s = [m] \<Longrightarrow> s = m \<and> c \<notin> set m"
proof (induction s arbitrary: m)
  case Nil
  then show ?case by simp
next
  case (Cons x xs)
  then show ?case
    using py_split_nonempty [of c xs] by (auto split: if_splits list.splits)
qed

lemma py_split_pair: "py_split c s = [h, m] \<Longrightarrow> s = h @ c # m \<and> c \<notin> set h \<and> c \<notin> set m"
proof (induction s arbitrary: h)
  case Nil
  then show ?case by simp
next
  case (Cons x xs)
  show ?case
  proof (cases "x = c")
    case True
    with Cons.prems have "h = []" "py_split c xs = [m]" by simp_all
    with True py_split_single [of c xs m] show ?thesis by simp
  next
    case False
    with Cons.prems obtain y where y: "py_split c xs = [y, m]" "h = x # y"
      by (auto split: list.splits)
    with Cons.IH [of y] False show ?thesis by simp
  qed
qed

lemma py_split_no_sep: "c \<notin> set s \<Longrightarrow> py_split c s = [s]"
  by (induction s) auto

lemma py_split_append: "c \<notin> set h \<Longrightarrow> py_split c (h @ c # m) = h # py_split c m"
  by (induction h) auto

lemma digit_not_colon: "is_digit c \<Longrightarrow> c \<noteq> CHR '':''"
  by (simp add: is_digit_def in_range_def colon_code)

lemma digits_no_colon: "list_all is_digit s \<Longrightarrow> CHR '':'' \<notin> set s"
  using digit_not_colon by (auto simp: list_all_iff)

lemma parseable_time_iff:
  "parseable_time s \<longleftrightarrow> (\<exists>h m. s = h @ CHR '':'' # m \<and> digits_upto 23 h \<and> digits_upto 59 m)"
proof
  assume "parseable_time s"
  then obtain h m where "py_split (CHR '':'') s = [h, m]" "digits_upto 23 h" "digits_upto 59 m"
    by (auto simp: parseable_time_def split: list.splits)
  then show "\<exists>h m. s = h @ CHR '':'' # m \<and> digits_upto 23 h \<and> digits_upto 59 m"
    using py_split_pair by blast
next
  assume "\<exists>h m. s = h @ CHR '':'' # m \<and> digits_upto 23 h \<and> digits_upto 59 m"
  then obtain h m where s: "s = h @ CHR '':'' # m" and d: "digits_upto 23 h" "digits_upto 59 m"
    by blast
  then have "CHR '':'' \<notin> set h" "CHR '':'' \<notin> set m"
    by (simp_all add: digits_upto_def digits_no_colon)
  then have "py_split (CHR '':'') s = [h, m]"
    by (simp add: s py_split_append py_split_no_sep)
  with d show "parseable_time s" by (simp add: parseable_time_def)
qed

lemmas char_class_defs = digits_upto_def digits_val_def is_digit_def in_range_def digit_val_def
  colon_code two_code

lemma directive_H_sound: "(h, r) \<in> set (directive_H s) \<Longrightarrow> s = h @ r \<and> digits_upto 23 h"
  by (auto simp: directive_H_def alt1_def alt2_def char_class_defs split: list.splits if_splits)

lemma directive_M_sound: "(m, r) \<in> set (directive_M s) \<Longrightarrow> s = m @ r \<and> digits_upto 59 m"
  by (auto simp: directive_M_def alt1_def alt2_def char_class_defs split: list.splits if_splits)

lemma colon_sound: "r1 \<in> set (colon r) \<Longrightarrow> r = CHR '':'' # r1"
  by (auto simp: colon_def split: list.splits if_splits)

lemma re_match_HM_sound:
  assumes "re_match_HM s = Some (h, m, r2)"
  shows "s = h @ CHR '':'' # m @ r2 \<and> digits_upto 23 h \<and> digits_upto 59 m"
proof -
  let ?l = "[(h, m, r2). (h, r) \<leftarrow> directive_H s, r1 \<leftarrow> colon r, (m, r2) \<leftarrow> directive_M r1]"
  from assms obtain xs where "?l = (h, m, r2) # xs"
    by (auto simp: re_match_HM_def split: list.splits)
  then have "(h, m, r2) \<in> set ?l"
    by (simp only: list.set_intros(1))
  then obtain r r1 where "(h, r) \<in> set (directive_H s)" "r1 \<in> set (colon r)"
    "(m, r2) \<in> set (directive_M r1)"
    by auto
  then show ?thesis
    using directive_H_sound colon_sound directive_M_sound by fastforce
qed

lemma validate_format_hour_parseable:
  assumes "validate_format_hour s"
  shows "parseable_time s"
proof -
  from assms obtain h m where "re_match_HM s = Some (h, m, [])"
    by (auto simp: validate_format_hour_def strptime_HM_def split: if_splits option.splits sum.splits)
  then show ?thesis
    using re_match_HM_sound [of s h m "[]"] parseable_time_iff by auto
qed


lemmas parse_defs = validate_format_hour_def strptime_HM_def re_match_HM_def directive_H_def
  directive_M_def alt1_def alt2_def colon_def

lemma accepts_1_1: "digits_upto 23 [a] \<Longrightarrow> digits_upto 59 [c] \<Longrightarrow> validate_format_hour [a, CHR '':'', c]"
  by (simp add: parse_defs char_class_defs)

lemma accepts_1_2: "digits_upto 23 [a] \<Longrightarrow> digits_upto 59 [c, d] \<Longrightarrow> validate_format_hour [a, CHR '':'', c, d]"
  apply (simp add: parse_defs char_class_defs)
  apply arith?
  done

lemma accepts_2_1: "digits_upto 23 [a, b] \<Longrightarrow> digits_upto 59 [c] \<Longrightarrow> validate_format_hour [a, b, CHR '':'', c]"
  apply (simp add: parse_defs char_class_defs)
  apply arith?
  done

lemma accepts_2_2: "digits_upto 23 [a, b] \<Longrightarrow> digits_upto 59 [c, d] \<Longrightarrow> validate_format_hour [a, b, CHR '':'', c, d]"
  apply (simp add: parse_defs char_class_defs)
  apply arith?
  done

lemma one_or_two: "length s = 1 \<or> length s = 2 \<Longrightarrow> (\<exists>a. s = [a]) \<or> (\<exists>a b. s = [a, b])"
  by (auto simp: length_Suc_conv eval_nat_numeral)

lemma parseable_validate:
  assumes "parseable_time s"
  shows "validate_format_hour s"
proof -
  from assms obtain h m where s: "s = h @ CHR '':'' # m" and d: "digits_upto 23 h" "digits_upto 59 m"
    using parseable_time_iff by blast
  from d have "(\<exists>a. h = [a]) \<or> (\<exists>a b. h = [a, b])" "(\<exists>c. m = [c]) \<or> (\<exists>c d. m = [c, d])"
    by (simp_all add: digits_upto_def one_or_two)
  then show ?thesis
    using d accepts_1_1 accepts_1_2 accepts_2_1 accepts_2_2 unfolding s by fastforce
qed

lemma validate_format_hour_eq: "validate_format_hour s = parseable_time s"
  using parseable_validate validate_format_hour_parseable by blast


lemma sign_codes:
  "(c = CHR ''-'') = ((of_char c :: nat) = 45)"
  "(c = CHR ''+'') = ((of_char c :: nat) = 43)"
  "(c = CHR ''_'') = ((of_char c :: nat) = 95)"
  using char_code_eq [of c "CHR ''-''"] char_code_eq [of c "CHR ''+''"]
    char_code_eq [of c "CHR ''_''"] by simp_all

lemma py_int_digits:
  assumes "digits_upto n s"
  shows "py_int s = Inr (int (digits_val s))"
proof -
  from assms have "(\<exists>a. s = [a]) \<or> (\<exists>a b. s = [a, b])"
    by (simp add: digits_upto_def one_or_two)
  then show ?thesis
    using assms
    by (auto simp: py_int_def int_strip_def is_int_space_def int_body_def Let_def sign_codes
        digits_upto_def is_digit_def in_range_def)
qed











text \<open>Every time of two digits, a colon and two digits, with the hour at most 23 and the
  minute at most 59, is among the times that the check accepts.\<close>

lemma wellformed_parseable: "wellformed_hhmm s \<Longrightarrow> parseable_time s"
  using wellformed_validate [of s] validate_format_hour_eq [of s] by simp





section \<open>Durations in minutes\<close>

text \<open>
  For an activity with well-formed times whose stored duration is empty or is the one
  calculated from its times, \<^verbatim>\<open>get_duration_in_minutes\<close> returns the elapsed minutes of
  the specification's rule; these are the numbers that the total and the average add.
\<close>

lemma two_digits_digits:
  assumes "k < 100"
  shows "digits_upto 99 (two_digits k)" and "digits_val (two_digits k) = k"
proof -
  have d: "k div 10 < 10" "k mod 10 < 10" using assms by simp_all
  show "digits_upto 99 (two_digits k)"
    using assms d
    by (simp add: digits_upto_def two_digits_def is_digit_digit_char digits_val_def digit_val_digit_char)
  show "digits_val (two_digits k) = k"
    using d by (simp add: two_digits_def digits_val_def digit_val_digit_char)
qed

lemma split_int_pair_hhmm:
  assumes "h < 100" "m < 100"
  shows "split_int_pair (two_digits h @ '':'' @ two_digits m) = Inr (int h, int m)"
proof -
  note H = two_digits_digits [OF assms(1)] and M = two_digits_digits [OF assms(2)]
  have "CHR '':'' \<notin> set (two_digits h)" "CHR '':'' \<notin> set (two_digits m)"
    using H(1) M(1) by (simp_all add: digits_upto_def digits_no_colon)
  then have "py_split (CHR '':'') (two_digits h @ '':'' @ two_digits m) = [two_digits h, two_digits m]"
    by (simp add: py_split_append py_split_no_sep)
  then show ?thesis
    using py_int_digits [OF H(1)] py_int_digits [OF M(1)] H(2) M(2)
    by (simp add: split_int_pair_def)
qed

lemma get_duration_in_minutes_wellformed:
  assumes "wellformed_hhmm (start_time a)" and "wellformed_hhmm (end_time a)"
    and "stored_duration a = [] \<or> stored_duration a = elapsed_hhmm (start_time a) (end_time a)"
  shows "get_duration_in_minutes a
           = (a\<lparr>stored_duration := elapsed_hhmm (start_time a) (end_time a)\<rparr>,
              elapsed_minutes (start_time a) (end_time a))"
proof -
  let ?d = "elapsed_minutes (start_time a) (end_time a)"
  let ?e = "elapsed_hhmm (start_time a) (end_time a)"
  have b: "0 < ?d" "?d \<le> 1440" using elapsed_minutes_bounds [OF assms(1,2)] by simp_all
  have c: "calculate_duration a = (a\<lparr>stored_duration := ?e\<rparr>, ?e)"
    using assms(1,2) wellformed_strptime [of "start_time a"] wellformed_strptime [of "end_time a"]
      wellformed_validate [of "start_time a"] wellformed_validate [of "end_time a"]
      format_difference_wellformed [of "start_time a" "end_time a"]
    by (simp add: calculate_duration_def calculate_duration_try_def)
  have hb: "nat (?d div 60) < 100" "nat (?d mod 60) < 100" using b by simp_all
  have s: "split_int_pair ?e = Inr (?d div 60, ?d mod 60)"
    using split_int_pair_hhmm [OF hb] b by (simp add: elapsed_hhmm_def)
  have col: "CHR '':'' \<in> set ?e" "?e \<noteq> []" by (simp_all add: elapsed_hhmm_def)
  have a1: "(if stored_duration a = [] \<or> CHR '':'' \<notin> set (stored_duration a)
             then fst (calculate_duration a) else a) = a\<lparr>stored_duration := ?e\<rparr>"
    using assms(3) c col by auto
  show ?thesis
    unfolding get_duration_in_minutes_def get_duration_in_minutes_try_def Let_def a1
    using col s by simp
qed

text \<open>
  \<^verbatim>\<open>int\<close> does not take the separators 28 to 31 for white space, though \<^verbatim>\<open>str.strip\<close>
  does: a stored duration that begins with one of them is no number of hours, and its
  duration in minutes is 0.
\<close>

lemma separator_before_digits:
  "py_int [char_of (31::nat), CHR ''2''] = Inl ValueError"
  "py_strip [char_of (31::nat), CHR ''2''] = ''2''"
  "py_int '' 2 '' = Inr 2"
  "snd (get_duration_in_minutes
          (example_activity\<lparr>stored_duration := char_of (31::nat) # ''2:30''\<rparr>)) = 0"
  by code_simp+

section \<open>Totals and averages\<close>

lemma sum_duration_minutes_eq:
  "sum_duration_minutes acts = (map (\<lambda>a. fst (get_duration_in_minutes a)) acts, total_minutes acts)"
  by (induction acts) (simp_all add: total_minutes_def split: prod.splits)

text \<open>The calculation of a duration does not look at what is stored, and the duration in
  minutes of an activity is the same when it is asked for again.\<close>

lemma calculate_duration_stored:
  "calculate_duration (a\<lparr>stored_duration := s\<rparr>)
     = (a\<lparr>stored_duration := snd (calculate_duration a)\<rparr>, snd (calculate_duration a))"
  by (simp add: calculate_duration_def calculate_duration_try_def split: sum.splits)

lemma get_duration_in_minutes_try_idem:
  "get_duration_in_minutes_try (fst (get_duration_in_minutes_try a)) = get_duration_in_minutes_try a"
proof (cases "stored_duration a = [] \<or> CHR '':'' \<notin> set (stored_duration a)")
  case True
  let ?c = "snd (calculate_duration a)"
  have f: "fst (calculate_duration a) = a\<lparr>stored_duration := ?c\<rparr>"
    by (rule calculate_duration_fields)
  have g: "fst (calculate_duration (a\<lparr>stored_duration := ?c\<rparr>)) = a\<lparr>stored_duration := ?c\<rparr>"
    by (simp add: calculate_duration_stored)
  show ?thesis
    using True by (simp add: get_duration_in_minutes_try_def Let_def f g)
next
  case False
  then show ?thesis
    by (simp add: get_duration_in_minutes_try_def Let_def)
qed

lemma get_duration_in_minutes_idem:
  "get_duration_in_minutes (fst (get_duration_in_minutes a)) = get_duration_in_minutes a"
proof -
  have "fst (get_duration_in_minutes a) = fst (get_duration_in_minutes_try a)"
    by (simp add: get_duration_in_minutes_def split: prod.splits sum.splits)
  then show ?thesis
    by (simp add: get_duration_in_minutes_def get_duration_in_minutes_try_idem)
qed

lemma total_minutes_stable:
  "total_minutes (map (\<lambda>a. fst (get_duration_in_minutes a)) acts) = total_minutes acts"
  by (induction acts) (simp_all add: total_minutes_def get_duration_in_minutes_idem)

text \<open>What \<^verbatim>\<open>get_statistics\<close> hands to its entries.\<close>

lemma calculate_total_activity_hours_eq:
  "calculate_total_activity_hours r
     = (r\<lparr>activities := map (\<lambda>a. fst (get_duration_in_minutes a)) (activities r)\<rparr>,
        hhmm_of_minutes (total_minutes (activities r)))"
  by (simp add: calculate_total_activity_hours_def sum_duration_minutes_eq hhmm_of_minutes_def Let_def)

lemma calculate_average_duration_eq:
  "snd (calculate_average_duration r)
     = (if activities r = [] then ''00:00''
        else hhmm_of_minutes (total_minutes (activities r) div int (length (activities r))))"
  by (simp add: calculate_average_duration_def sum_duration_minutes_eq hhmm_of_minutes_def Let_def)

lemma statistics_total:
  "total_activity_hours (snd (get_statistics r)) = snd (calculate_total_activity_hours r)"
  by (simp add: get_statistics_def case_prod_beta)

lemma statistics_average:
  "average_activity_duration (snd (get_statistics r))
     = (if activities r = [] then ''00:00''
        else hhmm_of_minutes (total_minutes (activities r) div int (length (activities r))))"
proof -
  let ?r1 = "fst (calculate_total_activity_hours r)"
  let ?r2 = "fst (instance_hours ?r1)"
  have a1: "activities ?r1 = map (\<lambda>a. fst (get_duration_in_minutes a)) (activities r)"
    by (simp add: calculate_total_activity_hours_eq)
  have a2: "activities ?r2 = activities ?r1"
    by (subst instance_hours_fields) simp
  have "average_activity_duration (snd (get_statistics r)) = snd (calculate_average_duration ?r2)"
    by (simp add: get_statistics_def case_prod_beta)
  then show ?thesis
    by (simp add: calculate_average_duration_eq a2 a1 total_minutes_stable)
qed

text \<open>The strings of \<^verbatim>\<open>02d\<close> read back as the numbers.\<close>

lemma digits_of_nonempty: "digits_of n \<noteq> []"
  by (subst digits_of.simps) simp

lemma digit_char_nonzero: "0 < k \<Longrightarrow> k < 10 \<Longrightarrow> digit_char k \<noteq> CHR ''0''"
  by (simp add: digit_char_def zero_char)

lemma hd_digits_of: "0 < n \<Longrightarrow> hd (digits_of n) \<noteq> CHR ''0''"
proof (induction n rule: digits_of.induct)
  case (1 n)
  show ?case
  proof (cases "n < 10")
    case True
    with 1 show ?thesis by (subst digits_of.simps) (simp add: digit_char_nonzero)
  next
    case False
    then have "0 < n div 10" by simp
    with 1 False have "hd (digits_of (n div 10)) \<noteq> CHR ''0''" by simp
    with False show ?thesis
      by (subst digits_of.simps) (simp add: digits_of_nonempty)
  qed
qed

lemma length_digits_of_ge: "10 \<le> n \<Longrightarrow> 2 \<le> length (digits_of n)"
  using digits_of_nonempty [of "n div 10"]
  by (subst digits_of.simps) (simp add: Suc_le_eq)

lemma length_digits_of_small: "n < 10 \<Longrightarrow> length (digits_of n) = 1"
  by (subst digits_of.simps) simp

lemma plain_decimal_digits_of: "0 < n \<Longrightarrow> plain_decimal (digits_of n)"
  by (simp add: plain_decimal_def digits_of_nonempty digits_of_all_digits hd_digits_of)

lemma spells_02d_format: "spells_02d n (format_02d n)"
proof -
  consider "n < 0" | "0 \<le> n" "n < 10" | "10 \<le> n" by linarith
  then show ?thesis
  proof cases
    case 1
    then show ?thesis
      by (simp add: spells_02d_def format_02d_def plain_decimal_digits_of digits_val_digits_of)
  next
    case 2
    then show ?thesis
      by (simp add: spells_02d_def format_02d_def is_digit_zero digits_of_all_digits
          length_digits_of_small digits_val_zeros [of 1, simplified] digits_val_digits_of)
  next
    case 3
    then have "2 \<le> length (digits_of (nat n))" "hd (digits_of (nat n)) \<noteq> CHR ''0''"
      by (simp_all add: length_digits_of_ge hd_digits_of)
    with 3 show ?thesis
      by (auto simp: spells_02d_def format_02d_def digits_of_all_digits digits_val_digits_of)
  qed
qed

lemma format_02d_no_colon: "CHR '':'' \<notin> set (format_02d n)"
  using digits_no_colon [OF digits_of_all_digits]
  by (simp add: format_02d_def)

lemma spells_hhmm_format: "spells_hhmm t (hhmm_of_minutes t)"
proof -
  have "py_split (CHR '':'') (format_02d (t div 60) @ CHR '':'' # format_02d (t mod 60))
          = [format_02d (t div 60), format_02d (t mod 60)]"
    by (simp add: py_split_append py_split_no_sep format_02d_no_colon)
  then show ?thesis
    by (simp add: spells_hhmm_def hhmm_of_minutes_def spells_02d_format)
qed

text \<open>The spelling is unique: the strings that spell a number are exactly the ones that
  the formatting writes.\<close>

lemma digit_char_digit_val: "is_digit c \<Longrightarrow> digit_char (digit_val c) = c"
  by (simp add: is_digit_def in_range_def digit_char_def digit_val_def)

lemma digit_val_less: "is_digit c \<Longrightarrow> digit_val c < 10"
  by (auto simp: is_digit_def in_range_def digit_val_def)

lemma digit_val_zero: "is_digit c \<Longrightarrow> digit_val c = 0 \<Longrightarrow> c = CHR ''0''"
  using digit_char_digit_val [of c] by (simp add: digit_char_def zero_char)

lemma digits_val_single: "digits_val [c] = digit_val c"
  by (simp add: digits_val_def)

lemma digits_val_pos:
  "list_all is_digit s \<Longrightarrow> s \<noteq> [] \<Longrightarrow> hd s \<noteq> CHR ''0'' \<Longrightarrow> 0 < digits_val s"
proof (induction s rule: rev_induct)
  case Nil
  then show ?case by simp
next
  case (snoc c xs)
  show ?case
  proof (cases "xs = []")
    case True
    with snoc.prems have "is_digit c" "c \<noteq> CHR ''0''" by simp_all
    then have "digit_val c \<noteq> 0" using digit_val_zero by blast
    with True show ?thesis by (simp add: digits_val_single)
  next
    case False
    with snoc have "0 < digits_val xs" by simp
    then show ?thesis by (simp add: digits_val_snoc)
  qed
qed

lemma digits_of_digits_val:
  "list_all is_digit s \<Longrightarrow> s \<noteq> [] \<Longrightarrow> length s = 1 \<or> hd s \<noteq> CHR ''0'' \<Longrightarrow>
     digits_of (digits_val s) = s"
proof (induction s rule: rev_induct)
  case Nil
  then show ?case by simp
next
  case (snoc c xs)
  have c: "is_digit c" using snoc.prems by simp
  show ?case
  proof (cases "xs = []")
    case True
    then show ?thesis
      using c digit_val_less [OF c]
      by (subst digits_of.simps) (simp add: digits_val_single digit_char_digit_val)
  next
    case False
    with snoc.prems have h: "hd xs \<noteq> CHR ''0''" "list_all is_digit xs" by auto
    then have ih: "digits_of (digits_val xs) = xs" using snoc.IH False by simp
    have p: "0 < digits_val xs" using digits_val_pos h False by simp
    have d: "(10 * digits_val xs + digit_val c) div 10 = digits_val xs"
      "(10 * digits_val xs + digit_val c) mod 10 = digit_val c"
      using digit_val_less [OF c] by simp_all
    have dm: "digit_val c mod 10 = digit_val c"
      using digit_val_less [OF c] by simp
    show ?thesis
      using p by (subst digits_of.simps) (simp add: digits_val_snoc d dm ih digit_char_digit_val c)
  qed
qed

lemma spells_02d_unique:
  assumes "spells_02d n s"
  shows "s = format_02d n"
proof (cases "n < 0")
  case True
  with assms have s: "s \<noteq> []" "hd s = CHR ''-''" and p: "plain_decimal (tl s)"
    and v: "int (digits_val (tl s)) = - n"
    by (simp_all add: spells_02d_def)
  from v have "digits_val (tl s) = nat (- n)" by simp
  then have "digits_of (nat (- n)) = tl s"
    using p digits_of_digits_val [of "tl s"] by (simp add: plain_decimal_def)
  with s True show ?thesis by (cases s) (simp_all add: format_02d_def)
next
  case False
  with assms have d: "list_all is_digit s" and v: "int (digits_val s) = n"
    and l: "length s = 2 \<or> (length s > 2 \<and> hd s \<noteq> CHR ''0'')"
    by (simp_all add: spells_02d_def)
  from v have vn: "digits_val s = nat n" by simp
  show ?thesis
  proof (cases "hd s = CHR ''0''")
    case True
    with l obtain b where s: "s = [CHR ''0'', b]"
      by (cases s) (auto simp: length_Suc_conv eval_nat_numeral)
    then have b: "is_digit b" using d by simp
    have "digits_val s = digit_val b"
      by (simp add: s digits_val_def digit_val_def)
    with vn have n: "nat n = digit_val b" by simp
    then have "n < 10" using digit_val_less [OF b] by simp
    moreover have "digits_of (nat n) = [b]"
      using digit_val_less [OF b]
      by (subst digits_of.simps) (simp add: n digit_char_digit_val b)
    ultimately show ?thesis using False by (simp add: format_02d_def s)
  next
    case nz: False
    from l have ne: "s \<noteq> []" by auto
    have r: "digits_of (nat n) = s"
      using digits_of_digits_val [OF d ne] nz vn by simp
    have "\<not> n < 10"
    proof
      assume "n < 10"
      then have "length (digits_of (nat n)) = 1" by (simp add: length_digits_of_small)
      with r l show False by simp
    qed
    with False r show ?thesis by (simp add: format_02d_def)
  qed
qed

lemma spells_hhmm_iff: "spells_hhmm t s \<longleftrightarrow> s = hhmm_of_minutes t"
proof
  assume "spells_hhmm t s"
  then obtain h m where p: "py_split (CHR '':'') s = [h, m]"
    and "spells_02d (t div 60) h" "spells_02d (t mod 60) m"
    by (auto simp: spells_hhmm_def split: list.splits)
  then have "h = format_02d (t div 60)" "m = format_02d (t mod 60)"
    using spells_02d_unique by blast+
  moreover have "s = h @ CHR '':'' # m" using p py_split_pair by blast
  ultimately show "s = hhmm_of_minutes t" by (simp add: hhmm_of_minutes_def)
next
  assume "s = hhmm_of_minutes t"
  then show "spells_hhmm t s" by (simp add: spells_hhmm_format)
qed

text \<open>The parser on the times that the format check accepts.\<close>

lemma strptime_1_1:
  "digits_upto 23 [a] \<Longrightarrow> digits_upto 59 [c] \<Longrightarrow>
     strptime_HM [a, CHR '':'', c] = Inr (3600 * int (digits_val [a]) + 60 * int (digits_val [c]))"
  by (simp add: parse_defs char_class_defs)

lemma strptime_1_2:
  "digits_upto 23 [a] \<Longrightarrow> digits_upto 59 [c, d] \<Longrightarrow>
     strptime_HM [a, CHR '':'', c, d] = Inr (3600 * int (digits_val [a]) + 60 * int (digits_val [c, d]))"
  apply (simp add: parse_defs char_class_defs)
  apply arith?
  done

lemma strptime_2_1:
  "digits_upto 23 [a, b] \<Longrightarrow> digits_upto 59 [c] \<Longrightarrow>
     strptime_HM [a, b, CHR '':'', c] = Inr (3600 * int (digits_val [a, b]) + 60 * int (digits_val [c]))"
  apply (simp add: parse_defs char_class_defs)
  apply arith?
  done

lemma strptime_2_2:
  "digits_upto 23 [a, b] \<Longrightarrow> digits_upto 59 [c, d] \<Longrightarrow>
     strptime_HM [a, b, CHR '':'', c, d]
       = Inr (3600 * int (digits_val [a, b]) + 60 * int (digits_val [c, d]))"
  apply (simp add: parse_defs char_class_defs)
  apply arith?
  done

lemma strptime_parts:
  assumes "digits_upto 23 h" and "digits_upto 59 m"
  shows "strptime_HM (h @ CHR '':'' # m) = Inr (3600 * int (digits_val h) + 60 * int (digits_val m))"
proof -
  from assms have "(\<exists>a. h = [a]) \<or> (\<exists>a b. h = [a, b])" "(\<exists>c. m = [c]) \<or> (\<exists>c d. m = [c, d])"
    by (simp_all add: digits_upto_def one_or_two)
  then show ?thesis
    using assms strptime_1_1 strptime_1_2 strptime_2_1 strptime_2_2 by fastforce
qed

lemma parseable_strptime:
  assumes "parseable_time s"
  shows "\<exists>t. time_of_day s = Some t \<and> strptime_HM s = Inr (60 * t) \<and> 0 \<le> t \<and> t < 1440"
proof -
  from assms obtain h m where p: "py_split (CHR '':'') s = [h, m]"
    and d: "digits_upto 23 h" "digits_upto 59 m"
    by (auto simp: parseable_time_def split: list.splits)
  have s: "s = h @ CHR '':'' # m" using p py_split_pair by blast
  have b: "digits_val h \<le> 23" "digits_val m \<le> 59" using d by (simp_all add: digits_upto_def)
  have t: "time_of_day s = Some (60 * int (digits_val h) + int (digits_val m))"
    using assms p by (simp add: time_of_day_def)
  have "strptime_HM s = Inr (60 * (60 * int (digits_val h) + int (digits_val m)))"
    unfolding s using strptime_parts [OF d] by simp
  with t b show ?thesis by simp
qed

lemma unparseable_time_of_day: "\<not> parseable_time s \<Longrightarrow> time_of_day s = None"
  by (simp add: time_of_day_def)

lemma format_difference_minutes:
  assumes "0 \<le> s" "s < 1440" "0 \<le> e" "e < 1440"
    and "d = (if e > s then e - s else e + 24 * 60 - s)"
  shows "format_difference (60 * s) (60 * e)
           = two_digits (nat (d div 60)) @ '':'' @ two_digits (nat (d mod 60))"
    and "0 < d" and "d \<le> 1440"
proof -
  show b: "0 < d" "d \<le> 1440" using assms by (simp_all split: if_splits)
  have diff: "(if 60 * e \<le> 60 * s then 60 * e + 86400 else 60 * e) - 60 * s = 60 * d"
    using assms(5) by simp
  have h: "(60 * d) div 3600 = d div 60" by simp
  have "60 * d mod 3600 = 60 * (d mod 60)" using mult_mod_right [of 60 d 60] by simp
  then have m: "((60 * d) mod 3600) div 60 = d mod 60" by simp
  have hb: "0 \<le> d div 60" "d div 60 < 100" using b by simp_all
  have mb: "0 \<le> d mod 60" "d mod 60 < 100" using b by simp_all
  show "format_difference (60 * s) (60 * e)
           = two_digits (nat (d div 60)) @ '':'' @ two_digits (nat (d mod 60))"
    unfolding format_difference_def Let_def diff h m
    by (simp add: format_02d_two_digits [OF hb] format_02d_two_digits [OF mb])
qed

text \<open>The duration in minutes of an activity whose stored duration is not stale is the
  duration of the specification's rule.\<close>

lemma up_to_date_minutes:
  assumes "duration_up_to_date a"
  shows "snd (get_duration_in_minutes a) = spec_duration_minutes a"
proof (cases "parseable_time (start_time a) \<and> parseable_time (end_time a)")
  case True
  then obtain s e where
    s: "time_of_day (start_time a) = Some s" "strptime_HM (start_time a) = Inr (60 * s)"
       "0 \<le> s" "s < 1440"
    and e: "time_of_day (end_time a) = Some e" "strptime_HM (end_time a) = Inr (60 * e)"
       "0 \<le> e" "e < 1440"
    using parseable_strptime [of "start_time a"] parseable_strptime [of "end_time a"] by blast
  define d where "d = (if e > s then e - s else e + 24 * 60 - s)"
  define F where "F = two_digits (nat (d div 60)) @ '':'' @ two_digits (nat (d mod 60))"
  note fd = format_difference_minutes [OF s(3,4) e(3,4) d_def]
  have c: "calculate_duration a = (a\<lparr>stored_duration := F\<rparr>, F)"
    using True s(2) e(2) fd(1)
    by (simp add: calculate_duration_def calculate_duration_try_def validate_format_hour_eq F_def)
  have hb: "nat (d div 60) < 100" "nat (d mod 60) < 100" using fd(2,3) by simp_all
  have sp: "split_int_pair F = Inr (d div 60, d mod 60)"
    using split_int_pair_hhmm [OF hb] fd(2) by (simp add: F_def)
  have col: "CHR '':'' \<in> set F" "F \<noteq> []" by (simp_all add: F_def)
  have st: "stored_duration a = [] \<or> stored_duration a = F"
    using assms c by (simp add: duration_up_to_date_def)
  have a1: "(if stored_duration a = [] \<or> CHR '':'' \<notin> set (stored_duration a)
             then fst (calculate_duration a) else a) = a\<lparr>stored_duration := F\<rparr>"
    using st c col by auto
  have g: "snd (get_duration_in_minutes a) = d"
    unfolding get_duration_in_minutes_def get_duration_in_minutes_try_def Let_def a1
    using col sp by simp
  have "spec_duration_minutes a = d"
    by (simp add: spec_duration_minutes_def s(1) e(1) d_def)
  with g show ?thesis by simp
next
  case False
  then have i: "isl (strptime_HM (start_time a)) \<or> isl (strptime_HM (end_time a))"
    using validate_format_hour_eq validate_format_hour_iff by blast
  let ?z = "duration_sentinel a"
  have c: "calculate_duration a = (a\<lparr>stored_duration := ?z\<rparr>, ?z)"
    using calculate_duration_unparseable [OF i] by (simp add: calculate_duration_def)
  have col: "CHR '':'' \<notin> set ?z" by (simp add: duration_sentinel_def)
  have st: "stored_duration a = [] \<or> stored_duration a = ?z"
    using assms c by (simp add: duration_up_to_date_def)
  have a1: "(if stored_duration a = [] \<or> CHR '':'' \<notin> set (stored_duration a)
             then fst (calculate_duration a) else a) = a\<lparr>stored_duration := ?z\<rparr>"
    using st c col by auto
  have g: "snd (get_duration_in_minutes a) = 0"
    unfolding get_duration_in_minutes_def get_duration_in_minutes_try_def Let_def a1
    using col by simp
  have "spec_duration_minutes a = 0"
    using False unparseable_time_of_day [of "start_time a"] unparseable_time_of_day [of "end_time a"]
    by (auto simp: spec_duration_minutes_def split: option.splits)
  with g show ?thesis by simp
qed

lemma total_minutes_spec:
  "\<forall>a \<in> set acts. duration_up_to_date a \<Longrightarrow>
     total_minutes acts = sum_list (map spec_duration_minutes acts)"
  by (induction acts) (simp_all add: total_minutes_def up_to_date_minutes)

text \<open>
  Claim C9. The string that \<^verbatim>\<open>calculate_total_activity_hours\<close> returns, which is also
  the entry \<^verbatim>\<open>total_activity_hours\<close> of \<^verbatim>\<open>get_statistics\<close>, spells the sum of the
  activities' durations in minutes as hours and minutes, the hours unbounded. The entry
  \<^verbatim>\<open>average_activity_duration\<close> of \<^verbatim>\<open>get_statistics\<close> is \<open>00:00\<close> without activities
  and otherwise spells the floor of that sum divided by the number of activities. When no
  stored duration is stale, the sum is the sum of the durations that the rule of the
  specification gives for the start and end times. (Exactly one string spells a number
  of minutes, by \<open>spells_hhmm_iff\<close>.)
\<close>

theorem total_and_average_activity_hours:
  "spells_hhmm (total_minutes (activities r)) (snd (calculate_total_activity_hours r))
   \<and> total_activity_hours (snd (get_statistics r)) = snd (calculate_total_activity_hours r)
   \<and> (activities r = [] \<longrightarrow> average_activity_duration (snd (get_statistics r)) = ''00:00'')
   \<and> (activities r \<noteq> [] \<longrightarrow>
        spells_hhmm (total_minutes (activities r) div int (length (activities r)))
          (average_activity_duration (snd (get_statistics r))))
   \<and> ((\<forall>a \<in> set (activities r). duration_up_to_date a) \<longrightarrow>
        total_minutes (activities r) = sum_list (map spec_duration_minutes (activities r)))"
proof -
  have 1: "spells_hhmm (total_minutes (activities r)) (snd (calculate_total_activity_hours r))"
    by (simp add: calculate_total_activity_hours_eq spells_hhmm_format)
  have 2: "total_activity_hours (snd (get_statistics r)) = snd (calculate_total_activity_hours r)"
    by (rule statistics_total)
  have 3: "activities r = [] \<longrightarrow> average_activity_duration (snd (get_statistics r)) = ''00:00''"
    by (simp add: statistics_average)
  have 4: "activities r \<noteq> [] \<longrightarrow>
        spells_hhmm (total_minutes (activities r) div int (length (activities r)))
          (average_activity_duration (snd (get_statistics r)))"
    by (simp add: statistics_average spells_hhmm_format)
  have 5: "(\<forall>a \<in> set (activities r). duration_up_to_date a) \<longrightarrow>
        total_minutes (activities r) = sum_list (map spec_duration_minutes (activities r))"
    using total_minutes_spec by blast
  from 1 2 3 4 5 show ?thesis by blast
qed

text \<open>Two activities of 02:30 and 01:30: the total is 04:00 and the average 02:00.\<close>

theorem total_and_average_activity_hours_witness:
  "map stored_duration (activities two_activities_report) = [''02:30'', ''01:30'']
   \<and> list_all duration_up_to_date (activities two_activities_report)
   \<and> sum_list (map spec_duration_minutes (activities two_activities_report)) = 240
   \<and> total_minutes (activities two_activities_report) = 240
   \<and> spells_hhmm 240 ''04:00'' \<and> spells_hhmm (240 div 2) ''02:00''
   \<and> snd (calculate_total_activity_hours two_activities_report) = ''04:00''
   \<and> total_activity_hours (snd (get_statistics two_activities_report)) = ''04:00''
   \<and> average_activity_duration (snd (get_statistics two_activities_report)) = ''02:00''"
proof -
  have acts: "activities two_activities_report =
      [Activity_init ''Python Programming'' ''Reporting system'' ''09:00'' ''11:30'' None,
       Activity_init ''Documentation'' ''Technical documentation'' ''13:00'' ''14:30'' None]"
    by (simp add: two_activities_report_def)
  have d: "map stored_duration (activities two_activities_report) = [''02:30'', ''01:30'']"
    by code_simp
  have u: "duration_up_to_date
             (Activity_init ''Python Programming'' ''Reporting system'' ''09:00'' ''11:30'' None)"
    "duration_up_to_date
             (Activity_init ''Documentation'' ''Technical documentation'' ''13:00'' ''14:30'' None)"
    by code_simp+
  then have l: "list_all duration_up_to_date (activities two_activities_report)"
    by (simp add: acts)
  then have f: "\<forall>a \<in> set (activities two_activities_report). duration_up_to_date a"
    by (simp add: list_all_iff)
  have s: "sum_list (map spec_duration_minutes (activities two_activities_report)) = 240"
    by code_simp
  have n: "activities two_activities_report \<noteq> []" "int (length (activities two_activities_report)) = 2"
    by (simp_all add: acts)
  have sp: "spells_hhmm 240 ''04:00''" "spells_hhmm (240 div 2) ''02:00''"
    by code_simp+
  have c: "snd (calculate_total_activity_hours two_activities_report) = ''04:00''"
    by code_simp
  have v: "average_activity_duration (snd (get_statistics two_activities_report)) = ''02:00''"
    by code_simp
  note t = total_and_average_activity_hours [of two_activities_report]
  from t f s have m: "total_minutes (activities two_activities_report) = 240" by simp
  from t c have g: "total_activity_hours (snd (get_statistics two_activities_report)) = ''04:00''"
    by simp
  from d l s m sp c g v show ?thesis by blast
qed

end
